theory Spec2Isabelle
  imports Complex_Main "HOL-Library.Word" "HOL-Library.Multiset"
begin

section \<open>JavaScript values\<close>

text \<open>
  A JavaScript string is a sequence of UTF-16 code units and \<^verbatim>\<open>.length\<close> counts them.
  \<open>ascii\<close> turns a literal of the source into its code units.
\<close>

type_synonym jsstring = "16 word list"

definition ascii :: "string \<Rightarrow> jsstring" where
  "ascii s = map (\<lambda>c. of_nat (of_char c)) s"

text \<open>
  The values a request body or a provider response can hold. \<open>JObject\<close> stands for
  every object and array: the handlers only ever ask for its \<^verbatim>\<open>typeof\<close>.
\<close>

datatype jsnum = NaN | Fin real

datatype jsval = JUndefined | JNull | JBool bool | JNum jsnum | JStr jsstring | JObject

fun typeof :: "jsval \<Rightarrow> jsstring" where
  "typeof JUndefined = ascii ''undefined''"
| "typeof JNull = ascii ''object''"
| "typeof (JBool b) = ascii ''boolean''"
| "typeof (JNum n) = ascii ''number''"
| "typeof (JStr s) = ascii ''string''"
| "typeof JObject = ascii ''object''"

text \<open>\<^verbatim>\<open>s.length\<close> of a string, as a JavaScript number.\<close>

definition js_length :: "jsstring \<Rightarrow> jsval" where
  "js_length s = JNum (Fin (real (length s)))"

text \<open>
  \<^verbatim>\<open>ToNumber\<close> of a string: white space is trimmed, the empty string is 0, an
  optionally signed run of decimal digits is its value, and a string that is no numeric
  literal is \<^verbatim>\<open>NaN\<close>. Fractions, exponents, radix prefixes and \<^verbatim>\<open>Infinity\<close> are
  left out of the model and read as \<^verbatim>\<open>NaN\<close>; no result of \<^verbatim>\<open>typeof\<close> is one.
\<close>

definition is_js_space :: "16 word \<Rightarrow> bool" where
  "is_js_space c = (c \<in> {0x09, 0x0A, 0x0B, 0x0C, 0x0D, 0x20, 0xA0, 0x1680, 0x2028, 0x2029,
                        0x202F, 0x205F, 0x3000, 0xFEFF} \<or> (0x2000 \<le> c \<and> c \<le> 0x200A))"

definition js_trim :: "jsstring \<Rightarrow> jsstring" where
  "js_trim s = rev (dropWhile is_js_space (rev (dropWhile is_js_space s)))"

definition is_digit :: "16 word \<Rightarrow> bool" where
  "is_digit c = (0x30 \<le> c \<and> c \<le> 0x39)"

definition digits_value :: "jsstring \<Rightarrow> nat" where
  "digits_value ds = foldl (\<lambda>acc c. 10 * acc + (unat c - 48)) 0 ds"

definition string_to_number :: "jsstring \<Rightarrow> jsnum" where
  "string_to_number s =
     (case js_trim s of
        [] \<Rightarrow> Fin 0
      | c # r \<Rightarrow>
          (let body = (if c = 0x2B \<or> c = 0x2D then r else c # r);
               sign = (if c = 0x2D then - 1 else 1)
           in if body \<noteq> [] \<and> list_all is_digit body
              then Fin (sign * real (digits_value body)) else NaN))"

text \<open>
  \<^verbatim>\<open>x > y\<close> for a string \<open>x\<close> and a number \<open>y\<close>: the string is converted with
  \<^verbatim>\<open>ToNumber\<close>, and the comparison is false when either side is \<^verbatim>\<open>NaN\<close>.
\<close>

definition js_gt_str_num :: "jsstring \<Rightarrow> jsnum \<Rightarrow> bool" where
  "js_gt_str_num x y =
     (case (string_to_number x, y) of
        (Fin a, Fin b) \<Rightarrow> a > b
      | _ \<Rightarrow> False)"

text \<open>
  \<^verbatim>\<open>xs.slice(start)\<close>: a negative start counts from the end and is clamped at 0, a
  start beyond the end gives the empty array.
\<close>

definition js_slice :: "int \<Rightarrow> 'a list \<Rightarrow> 'a list" where
  "js_slice start xs =
     (let len = int (length xs);
          k = (if start < 0 then max (len + start) 0 else min start len)
      in drop (nat k) xs)"

text \<open>\<^verbatim>\<open>name.split(' ')[0]\<close>: the code units before the first space.\<close>

definition split_first :: "jsstring \<Rightarrow> jsstring" where
  "split_first name = takeWhile (\<lambda>c. c \<noteq> 0x20) name"

section \<open>Time arithmetic of utils/time.js\<close>

text \<open>
  An instant is a number of milliseconds since 1970-01-01T00:00:00Z, as a JavaScript
  \<^verbatim>\<open>Date\<close> and a moment object hold it. Every helper of utils/time.js starts with
  \<^verbatim>\<open>moment().utc()\<close>, which reads the clock; the reading is the argument \<open>now\<close>
  of the model. The moment stays in UTC mode through \<^verbatim>\<open>clone\<close>, \<^verbatim>\<open>add\<close> and
  \<^verbatim>\<open>subtract\<close>, so \<^verbatim>\<open>startOf\<close> works on the UTC calendar fields of the shifted
  instant and a day is always 86400000 ms.
\<close>

type_synonym instant = int

definition ms_per_minute :: int where
  "ms_per_minute = 60000"

definition ms_per_day :: int where
  "ms_per_day = 86400000"

definition add_minutes :: "instant \<Rightarrow> int \<Rightarrow> instant" where
  "add_minutes t m = t + m * ms_per_minute"

definition subtract_minutes :: "instant \<Rightarrow> int \<Rightarrow> instant" where
  "subtract_minutes t m = t - m * ms_per_minute"

definition subtract_days :: "instant \<Rightarrow> int \<Rightarrow> instant" where
  "subtract_days t d = t - d * ms_per_day"

text \<open>\<^verbatim>\<open>startOf('day')\<close>: midnight of the calendar day the instant lies in.\<close>

definition startOf_day :: "instant \<Rightarrow> instant" where
  "startOf_day t = (t div ms_per_day) * ms_per_day"

text \<open>
  \<^verbatim>\<open>isoWeekday()\<close>: 1 for Monday up to 7 for Sunday. Day 0 of the epoch
  (1970-01-01) was a Thursday.
\<close>

definition isoWeekday :: "instant \<Rightarrow> int" where
  "isoWeekday t = (t div ms_per_day + 3) mod 7 + 1"

text \<open>
  \<^verbatim>\<open>startOf('isoWeek')\<close>: midnight of the day \<open>isoWeekday - 1\<close> days before the
  instant's own day.
\<close>

definition startOf_isoWeek :: "instant \<Rightarrow> instant" where
  "startOf_isoWeek t = startOf_day t - (isoWeekday t - 1) * ms_per_day"

definition getStartOfCurrentWeekUTC :: "instant \<Rightarrow> int \<Rightarrow> instant" where
  "getStartOfCurrentWeekUTC now userTimezoneOffset =
     (let nowUTC = now;
          nowLocal = subtract_minutes nowUTC userTimezoneOffset;
          startOfWeekLocal = startOf_isoWeek nowLocal;
          startOfWeekUTC = add_minutes startOfWeekLocal userTimezoneOffset
      in startOfWeekUTC)"

definition getStartOfPreviousWeekUTC :: "instant \<Rightarrow> int \<Rightarrow> instant" where
  "getStartOfPreviousWeekUTC now userTimezoneOffset =
     (let nowUTC = now;
          nowLocal = subtract_minutes nowUTC userTimezoneOffset;
          startOfWeekLocal = startOf_isoWeek nowLocal;
          startOfWeekUTC = add_minutes startOfWeekLocal userTimezoneOffset;
          startOfPreviousWeekUTC = subtract_days startOfWeekUTC 7
      in startOfPreviousWeekUTC)"

definition getStartOfTodayUTC :: "instant \<Rightarrow> int \<Rightarrow> instant" where
  "getStartOfTodayUTC now userTimezoneOffset =
     (let nowUTC = now;
          nowLocal = subtract_minutes nowUTC userTimezoneOffset;
          startOfTodayLocal = startOf_day nowLocal;
          startOfTodayUTC = add_minutes startOfTodayLocal userTimezoneOffset
      in startOfTodayUTC)"

definition getStartOfYesterdayUTC :: "instant \<Rightarrow> int \<Rightarrow> instant" where
  "getStartOfYesterdayUTC now userTimezoneOffset =
     (let nowUTC = now;
          nowLocal = subtract_minutes nowUTC userTimezoneOffset;
          startOfTodayLocal = startOf_day nowLocal;
          startOfTodayUTC = add_minutes startOfTodayLocal userTimezoneOffset;
          startOfYesterdayUTC = subtract_days startOfTodayUTC 1
      in startOfYesterdayUTC)"

definition getDaysBeforeUTC :: "instant \<Rightarrow> int \<Rightarrow> int \<Rightarrow> instant" where
  "getDaysBeforeUTC now userTimezoneOffset daysBefore =
     (let nowUTC = now;
          nowLocal = subtract_minutes nowUTC userTimezoneOffset;
          startOfTodayLocal = startOf_day nowLocal;
          startOfTodayUTC = add_minutes startOfTodayLocal userTimezoneOffset;
          daysBeforeToday = subtract_days startOfTodayUTC daysBefore
      in daysBeforeToday)"

subsection \<open>Calendar dates, for stating examples\<close>

text \<open>
  The number of days from 1970-01-01 to a date of the proleptic Gregorian calendar, and
  the instant of a UTC wall-clock reading. These are not part of the program: they only
  let an example be written as a date.
\<close>

definition days_from_civil :: "int \<Rightarrow> int \<Rightarrow> int \<Rightarrow> int" where
  "days_from_civil y m d =
     (let y' = (if m \<le> 2 then y - 1 else y);
          era = y' div 400;
          yoe = y' - era * 400;
          doy = (153 * (if m > 2 then m - 3 else m + 9) + 2) div 5 + d - 1;
          doe = yoe * 365 + yoe div 4 - yoe div 100 + doy
      in era * 146097 + doe - 719468)"

definition utc_instant :: "int \<Rightarrow> int \<Rightarrow> int \<Rightarrow> int \<Rightarrow> int \<Rightarrow> instant" where
  "utc_instant y m d hh mm =
     days_from_civil y m d * ms_per_day + hh * 3600000 + mm * ms_per_minute"

text \<open>The local wall-clock reading of an instant, as an instant of the UTC calendar.\<close>

definition local_of :: "int \<Rightarrow> instant \<Rightarrow> instant" where
  "local_of userTimezoneOffset t = t - userTimezoneOffset * ms_per_minute"

section \<open>Errors\<close>

text \<open>
  \<open>HttpError\<close> is the class of utils/httpError.js with its status, message and
  details. The other constructors are the errors thrown below the services: a
  \<^verbatim>\<open>TypeError\<close> of the runtime (a property read on \<^verbatim>\<open>null\<close> or
  \<^verbatim>\<open>undefined\<close>), a schema validation error of the object mapper, and an error of
  an external provider (language model, transcription). Each carries its message.
\<close>

datatype error =
    HttpError nat string "string option"
  | TypeError string
  | ValidationError string
  | ProviderError string

fun error_message :: "error \<Rightarrow> string" where
  "error_message (HttpError s m d) = m"
| "error_message (TypeError m) = m"
| "error_message (ValidationError m) = m"
| "error_message (ProviderError m) = m"


section \<open>Data model: models/messageModel.js and models/conversationModel.js\<close>

text \<open>
  An object id is a natural number; the database hands out fresh ones from a counter.
  Both schemas set \<^verbatim>\<open>timestamps\<close>, so a document carries \<^verbatim>\<open>created_at\<close> and
  \<^verbatim>\<open>updated_at\<close>. A collection is the list of its documents in insertion order.
\<close>

type_synonym oid = nat

record content_block =
  block_type :: jsstring
  block_text :: jsstring

record message =
  m_id :: oid
  m_role :: jsstring
  m_content :: "content_block list"
  m_conversation :: oid
  m_created_at :: instant
  m_updated_at :: instant

record conversation =
  c_id :: oid
  c_messages :: "oid list"
  c_owner :: oid
  c_created_at :: instant
  c_updated_at :: instant

text \<open>A conversation after \<^verbatim>\<open>populate\<close>: the references replaced by the documents.\<close>

record populated_conversation =
  p_id :: oid
  p_messages :: "message list"
  p_owner :: oid
  p_created_at :: instant
  p_updated_at :: instant

record database =
  messageColl :: "message list"
  conversationColl :: "conversation list"
  nextOid :: oid

definition empty_database :: database where
  "empty_database = \<lparr>messageColl = [], conversationColl = [], nextOid = 0\<rparr>"

text \<open>The values the schema's \<^verbatim>\<open>enum\<close> allows for \<^verbatim>\<open>role\<close>.\<close>

definition role_enum :: "jsstring list" where
  "role_enum = [ascii ''user'', ascii ''assistant'']"

section \<open>History service: newConversation, newMessage, updateConversation\<close>

text \<open>
  Every operation that writes reads the clock for the timestamps; the reading is the
  argument \<open>now\<close>.
\<close>

definition newConversation :: "database \<Rightarrow> instant \<Rightarrow> oid \<Rightarrow> database \<times> conversation" where
  "newConversation db now userId =
     (let c = \<lparr>c_id = nextOid db, c_messages = [], c_owner = userId,
                c_created_at = now, c_updated_at = now\<rparr>
      in (db\<lparr>conversationColl := conversationColl db @ [c], nextOid := Suc (nextOid db)\<rparr>, c))"

text \<open>
  \<^verbatim>\<open>messageModel.create\<close> validates the document against the schema before it is
  saved: \<^verbatim>\<open>role\<close> is required and one of the enum's values, and the \<^verbatim>\<open>text\<close>
  of the block is required, which for a string field also rejects the empty string.
  Nothing is saved when validation fails; the messages of the errors are abridged. The
  input is the text of the turn, or \<open>None\<close> for \<^verbatim>\<open>null\<close>: the callers pass a
  string the controller has checked, or the content of the provider's reply, which may
  be \<^verbatim>\<open>null\<close>.
\<close>

definition newMessage ::
  "database \<Rightarrow> instant \<Rightarrow> jsstring \<Rightarrow> jsstring option \<Rightarrow> oid \<Rightarrow> database \<times> (error + message)" where
  "newMessage db now role input conversationId =
     (if role \<notin> set role_enum
      then (db, Inl (ValidationError ''Message validation failed: role''))
      else case input of
        None \<Rightarrow> (db, Inl (ValidationError ''Message validation failed: content.0.text: 'Text' is required!''))
      | Some text \<Rightarrow>
          if text = []
          then (db, Inl (ValidationError ''Message validation failed: content.0.text: 'Text' is required!''))
          else
            (let content = [\<lparr>block_type = ascii ''text'', block_text = text\<rparr>];
                 m = \<lparr>m_id = nextOid db, m_role = role, m_content = content,
                      m_conversation = conversationId, m_created_at = now, m_updated_at = now\<rparr>
             in (db\<lparr>messageColl := messageColl db @ [m], nextOid := Suc (nextOid db)\<rparr>, Inr m)))"

text \<open>\<^verbatim>\<open>$addToSet\<close>: the value is appended unless the array already holds it.\<close>

definition addToSet :: "'a list \<Rightarrow> 'a \<Rightarrow> 'a list" where
  "addToSet xs x = (if x \<in> set xs then xs else xs @ [x])"

text \<open>The first document with the id is replaced, as \<^verbatim>\<open>findOneAndUpdate\<close> does.\<close>

fun replace_first :: "oid \<Rightarrow> conversation \<Rightarrow> conversation list \<Rightarrow> conversation list" where
  "replace_first i c' [] = []"
| "replace_first i c' (c # cs) = (if c_id c = i then c' # cs else c # replace_first i c' cs)"

text \<open>
  \<^verbatim>\<open>populate({ path: 'messages', options: { sort: { created_at: 1 } } })\<close>: the
  documents of the message collection whose id is among the references, sorted by
  creation time. A reference without a document contributes nothing. The database leaves
  the order of documents with equal creation times open; the model keeps them in the
  order of the collection.
\<close>

definition populate_messages :: "message list \<Rightarrow> oid list \<Rightarrow> message list" where
  "populate_messages coll refs = sort_key m_created_at (filter (\<lambda>m. m_id m \<in> set refs) coll)"

definition populate :: "database \<Rightarrow> conversation \<Rightarrow> populated_conversation" where
  "populate db c =
     \<lparr>p_id = c_id c, p_messages = populate_messages (messageColl db) (c_messages c),
      p_owner = c_owner c, p_created_at = c_created_at c, p_updated_at = c_updated_at c\<rparr>"

text \<open>
  \<^verbatim>\<open>findByIdAndUpdate(..., { new: true })\<close> resolves to \<^verbatim>\<open>null\<close> when no document
  has the id, and to the updated document otherwise; the update also sets
  \<^verbatim>\<open>updated_at\<close>. \<open>None\<close> is \<^verbatim>\<open>null\<close>.
\<close>

definition updateConversation ::
  "database \<Rightarrow> instant \<Rightarrow> oid \<Rightarrow> oid \<Rightarrow> database \<times> populated_conversation option" where
  "updateConversation db now conversationId messageId =
     (case find (\<lambda>c. c_id c = conversationId) (conversationColl db) of
        None \<Rightarrow> (db, None)
      | Some c \<Rightarrow>
          (let c' = c\<lparr>c_messages := addToSet (c_messages c) messageId, c_updated_at := now\<rparr>;
               db' = db\<lparr>conversationColl := replace_first conversationId c' (conversationColl db)\<rparr>
           in (db', Some (populate db' c'))))"

section \<open>History service: getKidStats and deleteOlderThan\<close>

record kid_stats =
  currentWeekStats :: nat
  previousWeekStats :: nat
  todayStats :: nat
  yesterdayStats :: nat

text \<open>
  The query object of the four \<^verbatim>\<open>find\<close> calls: the owner, \<^verbatim>\<open>$gte\<close> a lower
  bound, \<^verbatim>\<open>$lt\<close> an upper bound when the query has one, and
  \<^verbatim>\<open>$expr: { $gt: [{ $size: '$messages' }, 5] }\<close>.
\<close>

definition stats_query :: "oid \<Rightarrow> instant \<Rightarrow> instant option \<Rightarrow> conversation \<Rightarrow> bool" where
  "stats_query kidId gte lt c =
     (c_owner c = kidId \<and> gte \<le> c_created_at c
      \<and> (case lt of None \<Rightarrow> True | Some hi \<Rightarrow> c_created_at c < hi)
      \<and> length (c_messages c) > 5)"

text \<open>
  Each of the four helpers reads the clock on its own, so the model takes the four
  readings \<open>t1\<close> to \<open>t4\<close> in the order of the calls.
\<close>

definition getKidStats ::
  "database \<Rightarrow> instant \<Rightarrow> instant \<Rightarrow> instant \<Rightarrow> instant \<Rightarrow> oid \<Rightarrow> int \<Rightarrow> kid_stats" where
  "getKidStats db t1 t2 t3 t4 kidId timezoneOffset =
     (let currentWeekStart = getStartOfCurrentWeekUTC t1 timezoneOffset;
          previousWeekStart = getStartOfPreviousWeekUTC t2 timezoneOffset;
          todayStart = getStartOfTodayUTC t3 timezoneOffset;
          yesterdayStart = getStartOfYesterdayUTC t4 timezoneOffset;
          currentWeekChats = filter (stats_query kidId currentWeekStart None) (conversationColl db);
          previousWeekChats =
            filter (stats_query kidId previousWeekStart (Some currentWeekStart)) (conversationColl db);
          todayChats = filter (stats_query kidId todayStart None) (conversationColl db);
          yesterdayChats =
            filter (stats_query kidId yesterdayStart (Some todayStart)) (conversationColl db)
      in \<lparr>currentWeekStats = length currentWeekChats,
          previousWeekStats = length previousWeekChats,
          todayStats = length todayChats,
          yesterdayStats = length yesterdayChats\<rparr>)"

text \<open>\<^verbatim>\<open>deleteMany({ owner: kidId, created_at: { $lt: daysBeforeDateUTC } })\<close>.\<close>

definition deleteOlderThan :: "database \<Rightarrow> instant \<Rightarrow> oid \<Rightarrow> int \<Rightarrow> int \<Rightarrow> database" where
  "deleteOlderThan db now kidId timezoneOffset daysBefore =
     (let daysBeforeDateUTC = getDaysBeforeUTC now timezoneOffset daysBefore
      in db\<lparr>conversationColl :=
              filter (\<lambda>c. \<not> (c_owner c = kidId \<and> c_created_at c < daysBeforeDateUTC))
                (conversationColl db)\<rparr>)"

section \<open>Chat service: chatWithLexi\<close>

text \<open>
  The record the controller gets from \<^verbatim>\<open>getChildInfoById\<close>. The schema of users
  requires \<^verbatim>\<open>fullName\<close>, so it is a string on every stored user.
\<close>

record child_info =
  fullName :: jsstring
  years :: jsval
  grade :: jsval
  city :: jsval

text \<open>
  \<^verbatim>\<open>setSystemPrompt\<close> of utils/aiPrompts.js concatenates a fixed prompt, a sentence
  that introduces the child and the first word of the child's name. The three string
  literals of the source are the fields of \<open>prompt_texts\<close>.
\<close>

record prompt_texts =
  basePrompt :: jsstring
  childPrefix :: jsstring
  childSuffix :: jsstring

definition setSystemPrompt :: "prompt_texts \<Rightarrow> jsstring \<Rightarrow> jsstring" where
  "setSystemPrompt texts name =
     basePrompt texts @ childPrefix texts @ split_first name @ childSuffix texts"

text \<open>One entry of the \<^verbatim>\<open>messages\<close> array sent to the language model.\<close>

record turn =
  t_role :: jsstring
  t_content :: "content_block list"

record chat_request =
  rq_model :: string
  rq_messages :: "turn list"
  rq_max_completion_tokens :: nat
  rq_temperature :: real

text \<open>
  The language model is an external collaborator: a function from the request to an
  outcome. \<open>LlmError\<close> is a call that throws, with the message of the error; it also
  stands for a completion without \<^verbatim>\<open>choices[0].message\<close>, which throws in the same
  \<^verbatim>\<open>try\<close> block. \<open>LlmReply\<close> carries the role and the content of
  \<^verbatim>\<open>choices[0].message\<close>; the content of a completion may be \<^verbatim>\<open>null\<close>.
\<close>

datatype llm_outcome = LlmError string | LlmReply jsstring "jsstring option"

record chat_response =
  r_role :: jsstring
  r_content :: "jsstring option"
  r_conversationId :: oid

text \<open>
  \<^verbatim>\<open>updatedConversation.messages.map(...)\<close>: each message becomes its role and its
  first content block. Reading \<^verbatim>\<open>content[0].type\<close> of a message without a block
  throws a \<^verbatim>\<open>TypeError\<close>.
\<close>

fun map_turns :: "message list \<Rightarrow> error + turn list" where
  "map_turns [] = Inr []"
| "map_turns (m # ms) =
     (case m_content m of
        [] \<Rightarrow> Inl (TypeError ''Cannot read properties of undefined (reading 'type')'')
      | b # _ \<Rightarrow>
          (case map_turns ms of
             Inl e \<Rightarrow> Inl e
           | Inr ts \<Rightarrow>
               Inr (\<lparr>t_role = m_role m,
                     t_content = [\<lparr>block_type = block_type b, block_text = block_text b\<rparr>]\<rparr> # ts)))"

text \<open>The context window: the mapped history cut by \<^verbatim>\<open>slice(-20)\<close>.\<close>

definition currentConversation :: "message list \<Rightarrow> error + turn list" where
  "currentConversation history =
     (case map_turns history of
        Inl e \<Rightarrow> Inl e
      | Inr ts \<Rightarrow> Inr (js_slice (- 20) ts))"

definition completion_request :: "jsstring \<Rightarrow> turn list \<Rightarrow> chat_request" where
  "completion_request systemPrompt window =
     \<lparr>rq_model = ''gpt-4o'',
      rq_messages =
        \<lparr>t_role = ascii ''system'',
         t_content = [\<lparr>block_type = ascii ''text'', block_text = systemPrompt\<rparr>]\<rparr> # window,
      rq_max_completion_tokens = 750,
      rq_temperature = 2 / 10\<rparr>"

text \<open>The \<^verbatim>\<open>catch\<close> block: every error is wrapped in an \<open>HttpError\<close> of status 500.\<close>

definition service_error :: "error \<Rightarrow> error" where
  "service_error e =
     HttpError 500 ''Error during AI response generation.''
       (Some (if error_message e = [] then ''OpenAI API error.'' else error_message e))"

text \<open>
  The first half of \<^verbatim>\<open>chatWithLexi\<close>, up to the call of the language model: the
  user's message is created, it is added to the conversation, and the window is built
  from the populated conversation. Reading \<^verbatim>\<open>.messages\<close> of the \<^verbatim>\<open>null\<close> that
  \<^verbatim>\<open>updateConversation\<close> resolves to for an unknown id throws a \<^verbatim>\<open>TypeError\<close>.
  \<open>t1\<close> and \<open>t2\<close> are the clock readings of the two writes.
\<close>

definition recordUserTurn ::
  "database \<Rightarrow> instant \<Rightarrow> instant \<Rightarrow> jsstring \<Rightarrow> oid \<Rightarrow> database \<times> (error + turn list)" where
  "recordUserTurn db t1 t2 textUserInput conversationId =
     (case newMessage db t1 (ascii ''user'') (Some textUserInput) conversationId of
        (db1, Inl e) \<Rightarrow> (db1, Inl e)
      | (db1, Inr newUserMessage) \<Rightarrow>
          (case updateConversation db1 t2 conversationId (m_id newUserMessage) of
             (db2, None) \<Rightarrow>
               (db2, Inl (TypeError ''Cannot read properties of null (reading 'messages')''))
           | (db2, Some updatedConversation) \<Rightarrow>
               (db2, currentConversation (p_messages updatedConversation))))"

text \<open>
  \<^verbatim>\<open>chatWithLexi\<close>. After the user's turn the model is called once with the system
  prompt and the window; its reply is created as a message and added to the conversation.
  Nothing that was written is undone when a later step throws. \<open>t3\<close> and \<open>t4\<close> are
  the clock readings of the two writes of the assistant's turn.
\<close>

definition chatWithLexi ::
  "prompt_texts \<Rightarrow> (chat_request \<Rightarrow> llm_outcome) \<Rightarrow> database \<Rightarrow> instant \<Rightarrow> instant \<Rightarrow> instant \<Rightarrow> instant
     \<Rightarrow> jsstring \<Rightarrow> oid \<Rightarrow> child_info \<Rightarrow> database \<times> (error + chat_response)" where
  "chatWithLexi texts llm db t1 t2 t3 t4 textUserInput conversationId user =
     (let systemPrompt = setSystemPrompt texts (fullName user) in
      case recordUserTurn db t1 t2 textUserInput conversationId of
        (db2, Inl e) \<Rightarrow> (db2, Inl (service_error e))
      | (db2, Inr window) \<Rightarrow>
          (case llm (completion_request systemPrompt window) of
             LlmError msg \<Rightarrow> (db2, Inl (service_error (ProviderError msg)))
           | LlmReply role content \<Rightarrow>
               (case newMessage db2 t3 role content conversationId of
                  (db3, Inl e) \<Rightarrow> (db3, Inl (service_error e))
                | (db3, Inr newAssistantMessage) \<Rightarrow>
                    (case updateConversation db3 t4 conversationId (m_id newAssistantMessage) of
                       (db4, _) \<Rightarrow>
                         (db4, Inr \<lparr>r_role = role, r_content = content,
                                    r_conversationId = conversationId\<rparr>)))))"

text \<open>The number of message references a stored conversation holds; 0 when there is none.\<close>

definition message_count :: "database \<Rightarrow> oid \<Rightarrow> nat" where
  "message_count db conversationId =
     (case find (\<lambda>c. c_id c = conversationId) (conversationColl db) of
        None \<Rightarrow> 0
      | Some c \<Rightarrow> length (c_messages c))"

section \<open>Chat controller: the text and voice endpoints\<close>

text \<open>\<^verbatim>\<open>getChildInfoById\<close> of services/authService.js over the stored users.\<close>

definition getChildInfoById :: "(oid \<rightharpoonup> child_info) \<Rightarrow> oid \<Rightarrow> error + child_info" where
  "getChildInfoById users userId =
     (case users userId of
        None \<Rightarrow> Inl (HttpError 404 ''User not found!'' None)
      | Some user \<Rightarrow> Inr user)"

text \<open>
  The environment of a request: the prompt literals, the language model, the stored users,
  the id of the authenticated user and the four clock readings a turn may take.
\<close>

record env =
  e_texts :: prompt_texts
  e_llm :: "chat_request \<Rightarrow> llm_outcome"
  e_users :: "oid \<rightharpoonup> child_info"
  e_userId :: oid
  e_t1 :: instant
  e_t2 :: instant
  e_t3 :: instant
  e_t4 :: instant

text \<open>
  The part of both handlers after their checks: the user is looked up and the turn runs.
\<close>

definition run_turn :: "env \<Rightarrow> database \<Rightarrow> jsstring \<Rightarrow> oid \<Rightarrow> database \<times> (error + chat_response)" where
  "run_turn e db text conversationId =
     (case getChildInfoById (e_users e) (e_userId e) of
        Inl err \<Rightarrow> (db, Inl err)
      | Inr user \<Rightarrow>
          chatWithLexi (e_texts e) (e_llm e) db (e_t1 e) (e_t2 e) (e_t3 e) (e_t4 e)
            text conversationId user)"


text \<open>
  The length guard of \<^verbatim>\<open>POST /chat/voice\<close> as the source writes it:
  \<^verbatim>\<open>typeof textUserInput.length > 1000\<close>. The unary \<^verbatim>\<open>typeof\<close> binds tighter than
  \<^verbatim>\<open>>\<close>, so the string that \<^verbatim>\<open>typeof\<close> returns is compared with 1000.
\<close>

definition voice_too_long :: "jsstring \<Rightarrow> bool" where
  "voice_too_long textUserInput = js_gt_str_num (typeof (js_length textUserInput)) (Fin 1000)"

text \<open>
  \<^verbatim>\<open>POST /chat/voice\<close>. \<open>file\<close> tells whether the request carries an audio file and
  \<open>transcription\<close> is the outcome of \<^verbatim>\<open>transcribeAudio\<close>: an error it throws or the
  value it returns. The response holds the question and the answer.
\<close>

definition chat_voice ::
  "env \<Rightarrow> database \<Rightarrow> bool \<Rightarrow> error + jsval \<Rightarrow> oid option
     \<Rightarrow> database \<times> (error + jsstring \<times> jsstring)" where
  "chat_voice e db file transcription conversationId =
     (case conversationId of
        None \<Rightarrow> (db, Inl (HttpError 400 ''Conversation ID is not provided.'' None))
      | Some cid \<Rightarrow>
          if \<not> file then (db, Inl (HttpError 400 ''No audio file provided.'' None))
          else
            (case transcription of
               Inl err \<Rightarrow> (db, Inl err)
             | Inr (JStr textUserInput) \<Rightarrow>
                 if textUserInput = []
                 then (db, Inl (HttpError 400 ''Invalid voice content.''
                                 (Some ''Voice input was not properly recognized.'')))
                 else if voice_too_long textUserInput
                 then (db, Inl (HttpError 400 ''User question is too long.''
                                 (Some ''The question text content is limited to 1000 characters.'')))
                 else
                   (case run_turn e db textUserInput cid of
                      (db', Inl err) \<Rightarrow> (db', Inl err)
                    | (db', Inr textChatResponse) \<Rightarrow>
                        (case r_content textChatResponse of
                           None \<Rightarrow> (db', Inl (HttpError 400 ''Invalid AI response.''
                                                (Some ''AI returned an invalid response.'')))
                         | Some answer \<Rightarrow>
                             if answer = []
                             then (db', Inl (HttpError 400 ''Invalid AI response.''
                                              (Some ''AI returned an invalid response.'')))
                             else (db', Inr (textUserInput, answer))))
             | Inr _ \<Rightarrow>
                 (db, Inl (HttpError 400 ''Invalid voice content.''
                            (Some ''Voice input was not properly recognized.'')))))"

section \<open>Notions used to state the properties\<close>

text \<open>
  None of the definitions of this section is code of the program. \<open>turn_of\<close> is a
  message as the language model is to see it: its role and its first content block.
\<close>

definition turn_of :: "message \<Rightarrow> turn" where
  "turn_of m = \<lparr>t_role = m_role m, t_content = take 1 (m_content m)\<rparr>"

text \<open>
  The chronologically sorted history of a stored conversation, as the read path of the
  store resolves it: the populated messages of its reference list.
\<close>

definition history_of :: "database \<Rightarrow> oid \<Rightarrow> message list" where
  "history_of db conversationId =
     (case find (\<lambda>c. c_id c = conversationId) (conversationColl db) of
        None \<Rightarrow> []
      | Some c \<Rightarrow> p_messages (populate db c))"

definition system_turn :: "jsstring \<Rightarrow> turn" where
  "system_turn systemPrompt =
     \<lparr>t_role = ascii ''system'',
      t_content = [\<lparr>block_type = ascii ''text'', block_text = systemPrompt\<rparr>]\<rparr>"

text \<open>
  A sequence of \<^verbatim>\<open>updateConversation\<close> calls on one conversation, each with its clock
  reading and its message id; the state after the last call.
\<close>

fun append_calls :: "database \<Rightarrow> oid \<Rightarrow> (instant \<times> oid) list \<Rightarrow> database" where
  "append_calls db conversationId [] = db"
| "append_calls db conversationId ((now, messageId) # calls) =
     append_calls (fst (updateConversation db now conversationId messageId)) conversationId calls"

text \<open>
  What the database guarantees and the services maintain: ids are unique within a
  collection, every id in use was handed out by the counter, and every stored message
  has a content block.
\<close>

definition wf_db :: "database \<Rightarrow> bool" where
  "wf_db db =
     (distinct (map m_id (messageColl db))
      \<and> distinct (map c_id (conversationColl db))
      \<and> (\<forall>m\<in>set (messageColl db). m_id m < nextOid db \<and> m_content m \<noteq> [])
      \<and> (\<forall>c\<in>set (conversationColl db).
            c_id c < nextOid db \<and> (\<forall>r\<in>set (c_messages c). r < nextOid db)))"

text \<open>Sample documents for the examples.\<close>

definition sample_message :: "oid \<Rightarrow> instant \<Rightarrow> message" where
  "sample_message i created =
     \<lparr>m_id = i, m_role = ascii ''user'',
      m_content = [\<lparr>block_type = ascii ''text'', block_text = ascii ''hello''\<rparr>],
      m_conversation = 100, m_created_at = created, m_updated_at = created\<rparr>"

definition sample_conversation :: "oid \<Rightarrow> oid \<Rightarrow> oid list \<Rightarrow> instant \<Rightarrow> conversation" where
  "sample_conversation i ownerId refs created =
     \<lparr>c_id = i, c_messages = refs, c_owner = ownerId, c_created_at = created, c_updated_at = created\<rparr>"

definition sample_db :: "message list \<Rightarrow> conversation list \<Rightarrow> database" where
  "sample_db ms cs = \<lparr>messageColl = ms, conversationColl = cs, nextOid = 1000\<rparr>"

definition sample_texts :: prompt_texts where
  "sample_texts = \<lparr>basePrompt = ascii ''You are Lexi. '', childPrefix = ascii ''The child is '',
                    childSuffix = ascii ''. ''\<rparr>"

definition sample_user :: child_info where
  "sample_user = \<lparr>fullName = ascii ''Ana Petrova'', years = JNum (Fin 9), grade = JNum (Fin 3),
                   city = JStr (ascii ''Sofia'')\<rparr>"

definition sample_env :: "(chat_request \<Rightarrow> llm_outcome) \<Rightarrow> env" where
  "sample_env llm =
     \<lparr>e_texts = sample_texts, e_llm = llm, e_users = [7 \<mapsto> sample_user], e_userId = 7,
      e_t1 = 10, e_t2 = 11, e_t3 = 12, e_t4 = 13\<rparr>"

section \<open>Week boundaries\<close>

lemma utc_instant_examples:
  "utc_instant 1970 1 1 0 0 = 0"
  "utc_instant 2024 6 12 8 0 = 1718179200000"
  "utc_instant 2024 6 12 10 0 = 1718186400000"
  "utc_instant 2024 6 10 0 0 = 1717977600000"
  "utc_instant 2024 6 9 22 0 = 1717970400000"
  by (simp_all add: utc_instant_def days_from_civil_def ms_per_day_def ms_per_minute_def)

lemma startOf_day_bounds:
  "startOf_day t \<le> t" "t < startOf_day t + ms_per_day" "startOf_day t mod ms_per_day = 0"
proof -
  have pos: "(0::int) < ms_per_day" by (simp add: ms_per_day_def)
  have "t = (t div ms_per_day) * ms_per_day + t mod ms_per_day" by simp
  moreover have "0 \<le> t mod ms_per_day" "t mod ms_per_day < ms_per_day"
    using pos by simp_all
  ultimately show "startOf_day t \<le> t" "t < startOf_day t + ms_per_day"
    unfolding startOf_day_def by linarith+
  show "startOf_day t mod ms_per_day = 0"
    unfolding startOf_day_def by simp
qed

lemma startOf_isoWeek_day: "startOf_isoWeek t div ms_per_day = t div ms_per_day - (isoWeekday t - 1)"
proof -
  have "startOf_isoWeek t = (t div ms_per_day - (isoWeekday t - 1)) * ms_per_day"
    unfolding startOf_isoWeek_def startOf_day_def by (simp add: algebra_simps)
  then show ?thesis by (simp add: ms_per_day_def)
qed

lemma startOf_isoWeek_monday: "isoWeekday (startOf_isoWeek t) = 1"
proof -
  define d where "d = t div ms_per_day"
  have "isoWeekday (startOf_isoWeek t) = (d - ((d + 3) mod 7 + 1 - 1) + 3) mod 7 + 1"
    unfolding isoWeekday_def startOf_isoWeek_day d_def by simp
  also have "\<dots> = 1" by presburger
  finally show ?thesis .
qed

lemma isoWeekday_range: "1 \<le> isoWeekday t" "isoWeekday t \<le> 7"
  unfolding isoWeekday_def by simp_all

lemma startOf_isoWeek_bounds:
  "startOf_isoWeek t \<le> t" "t < startOf_isoWeek t + 7 * ms_per_day"
  "startOf_isoWeek t mod ms_per_day = 0"
proof -
  have pos: "(0::int) < ms_per_day" by (simp add: ms_per_day_def)
  have w: "0 \<le> isoWeekday t - 1" "isoWeekday t - 1 \<le> 6"
    using isoWeekday_range [of t] by simp_all
  have m: "0 \<le> (isoWeekday t - 1) * ms_per_day" "(isoWeekday t - 1) * ms_per_day \<le> 6 * ms_per_day"
    using w pos by (simp_all add: mult_right_mono)
  show "startOf_isoWeek t \<le> t"
    unfolding startOf_isoWeek_def using startOf_day_bounds(1) [of t] m by linarith
  show "t < startOf_isoWeek t + 7 * ms_per_day"
    unfolding startOf_isoWeek_def using startOf_day_bounds(2) [of t] m by linarith
  have "startOf_isoWeek t = (t div ms_per_day - (isoWeekday t - 1)) * ms_per_day"
    unfolding startOf_isoWeek_def startOf_day_def by (simp add: algebra_simps)
  then show "startOf_isoWeek t mod ms_per_day = 0" by simp
qed

lemma currentWeek_local: "local_of off (getStartOfCurrentWeekUTC now off) = startOf_isoWeek (local_of off now)"
  by (simp add: getStartOfCurrentWeekUTC_def local_of_def add_minutes_def subtract_minutes_def)

text \<open>
  C7. With \<open>timezoneOffsetMinutes = -120\<close> (UTC+2) and the clock at Wednesday 2024-06-12
  10:00 local time, which is 08:00 UTC, the start of the current week is the instant
  2024-06-09 22:00 UTC, which is Monday 2024-06-10 00:00 local time. For every clock
  reading and offset the start of the current week, read in local time, is a midnight,
  falls on a Monday, is not after the local now and is less than seven days before it.
\<close>

theorem getStartOfCurrentWeekUTC_example:
  "getStartOfCurrentWeekUTC (utc_instant 2024 6 12 8 0) (-120) = utc_instant 2024 6 9 22 0
   \<and> local_of (-120) (utc_instant 2024 6 12 8 0) = utc_instant 2024 6 12 10 0
   \<and> isoWeekday (utc_instant 2024 6 12 10 0) = 3
   \<and> local_of (-120) (utc_instant 2024 6 9 22 0) = utc_instant 2024 6 10 0 0
   \<and> (\<forall>now off. local_of off (getStartOfCurrentWeekUTC now off) mod ms_per_day = 0
        \<and> isoWeekday (local_of off (getStartOfCurrentWeekUTC now off)) = 1
        \<and> local_of off (getStartOfCurrentWeekUTC now off) \<le> local_of off now
        \<and> local_of off now < local_of off (getStartOfCurrentWeekUTC now off) + 7 * ms_per_day)"
proof -
  have a: "getStartOfCurrentWeekUTC (utc_instant 2024 6 12 8 0) (-120) = utc_instant 2024 6 9 22 0"
    unfolding utc_instant_examples
    by (simp add: getStartOfCurrentWeekUTC_def subtract_minutes_def add_minutes_def
        startOf_isoWeek_def startOf_day_def isoWeekday_def ms_per_day_def ms_per_minute_def)
  have b: "local_of (-120) (utc_instant 2024 6 12 8 0) = utc_instant 2024 6 12 10 0"
    unfolding utc_instant_examples by (simp add: local_of_def ms_per_minute_def)
  have c: "isoWeekday (utc_instant 2024 6 12 10 0) = 3"
    unfolding utc_instant_examples by (simp add: isoWeekday_def ms_per_day_def)
  have d: "local_of (-120) (utc_instant 2024 6 9 22 0) = utc_instant 2024 6 10 0 0"
    unfolding utc_instant_examples by (simp add: local_of_def ms_per_minute_def)
  have e: "local_of off (getStartOfCurrentWeekUTC now off) mod ms_per_day = 0
        \<and> isoWeekday (local_of off (getStartOfCurrentWeekUTC now off)) = 1
        \<and> local_of off (getStartOfCurrentWeekUTC now off) \<le> local_of off now
        \<and> local_of off now < local_of off (getStartOfCurrentWeekUTC now off) + 7 * ms_per_day"
    for now off
    unfolding currentWeek_local
    using startOf_isoWeek_bounds [of "local_of off now"] startOf_isoWeek_monday [of "local_of off now"]
    by simp
  from a b c d e show ?thesis by blast
qed

section \<open>Engagement counts and retention\<close>

lemma stats_query_count:
  "length (filter (stats_query k lo hi) (cs1 @ c # cs2)) =
   length (filter (stats_query k lo hi) (cs1 @ cs2)) + (if stats_query k lo hi c then 1 else 0)"
  by simp

lemma getDaysBeforeUTC_local:
  "local_of off (getDaysBeforeUTC now off d) = startOf_day (local_of off now) - d * ms_per_day"
  by (simp add: getDaysBeforeUTC_def local_of_def add_minutes_def subtract_minutes_def subtract_days_def)

lemma local_of_less: "local_of off a < local_of off b \<longleftrightarrow> a < b"
  by (simp add: local_of_def)

text \<open>
  C8. \<^verbatim>\<open>deleteOlderThan(kidId, offset, 15)\<close> keeps exactly the conversations that are
  not both owned by \<open>kidId\<close> and created, in local time, strictly before the local
  midnight of today minus 15 days. A conversation created at the boundary or later stays,
  and so does every conversation of another owner. Messages are not touched.
\<close>

theorem deleteOlderThan_retention:
  "conversationColl (deleteOlderThan db now kidId off 15) =
     filter (\<lambda>c. \<not> (c_owner c = kidId
                     \<and> local_of off (c_created_at c) < startOf_day (local_of off now) - 15 * ms_per_day))
       (conversationColl db)
   \<and> messageColl (deleteOlderThan db now kidId off 15) = messageColl db"
proof -
  have h: "c_created_at c < getDaysBeforeUTC now off 15
        \<longleftrightarrow> local_of off (c_created_at c) < startOf_day (local_of off now) - 15 * ms_per_day" for c
    using local_of_less [of off "c_created_at c" "getDaysBeforeUTC now off 15"]
    by (simp add: getDaysBeforeUTC_local)
  show ?thesis
    by (simp add: deleteOlderThan_def h)
qed

theorem deleteOlderThan_retention_witness:
  "conversationColl
     (deleteOlderThan
        (sample_db []
           [sample_conversation 1 7 [] (utc_instant 2024 5 27 21 59),
            sample_conversation 2 7 [] (utc_instant 2024 5 27 22 0),
            sample_conversation 3 8 [] (utc_instant 2020 1 1 0 0)])
        (utc_instant 2024 6 12 8 0) 7 (- 120) 15)
   = [sample_conversation 2 7 [] (utc_instant 2024 5 27 22 0),
      sample_conversation 3 8 [] (utc_instant 2020 1 1 0 0)]"
  using deleteOlderThan_retention
    [of "sample_db []
           [sample_conversation 1 7 [] (utc_instant 2024 5 27 21 59),
            sample_conversation 2 7 [] (utc_instant 2024 5 27 22 0),
            sample_conversation 3 8 [] (utc_instant 2020 1 1 0 0)]"
        "utc_instant 2024 6 12 8 0" 7 "- 120"]
  by (simp add: sample_db_def sample_conversation_def utc_instant_def days_from_civil_def
      local_of_def startOf_day_def ms_per_day_def ms_per_minute_def)

text \<open>
  C6. Adding one conversation to the store changes each of the four counts of
  \<^verbatim>\<open>getKidStats\<close> by one exactly when the conversation is owned by the kid, was
  created in the range of the bucket and has more than 5 messages. A conversation with
  exactly 5 messages changes no count; one with 6 messages of the kid is counted in every
  bucket whose range holds its creation time.
\<close>

theorem getKidStats_threshold:
  assumes "conversationColl db' = cs1 @ c # cs2" and "conversationColl db = cs1 @ cs2"
  shows "(let s' = getKidStats db' t1 t2 t3 t4 kidId off;
              s = getKidStats db t1 t2 t3 t4 kidId off;
              currentWeekStart = getStartOfCurrentWeekUTC t1 off;
              previousWeekStart = getStartOfPreviousWeekUTC t2 off;
              todayStart = getStartOfTodayUTC t3 off;
              yesterdayStart = getStartOfYesterdayUTC t4 off;
              mine = (c_owner c = kidId);
              n = length (c_messages c);
              created = c_created_at c
          in (currentWeekStats s' = currentWeekStats s + (if mine \<and> currentWeekStart \<le> created \<and> 5 < n then 1 else 0))
           \<and> (previousWeekStats s' = previousWeekStats s
                 + (if mine \<and> previousWeekStart \<le> created \<and> created < currentWeekStart \<and> 5 < n then 1 else 0))
           \<and> (todayStats s' = todayStats s + (if mine \<and> todayStart \<le> created \<and> 5 < n then 1 else 0))
           \<and> (yesterdayStats s' = yesterdayStats s
                 + (if mine \<and> yesterdayStart \<le> created \<and> created < todayStart \<and> 5 < n then 1 else 0))
           \<and> (n = 5 \<longrightarrow> s' = s)
           \<and> (n = 6 \<and> mine \<longrightarrow>
                 currentWeekStats s' = currentWeekStats s + (if currentWeekStart \<le> created then 1 else 0)
               \<and> previousWeekStats s' = previousWeekStats s
                   + (if previousWeekStart \<le> created \<and> created < currentWeekStart then 1 else 0)
               \<and> todayStats s' = todayStats s + (if todayStart \<le> created then 1 else 0)
               \<and> yesterdayStats s' = yesterdayStats s
                   + (if yesterdayStart \<le> created \<and> created < todayStart then 1 else 0)))"
  unfolding getKidStats_def Let_def assms
  by (simp add: stats_query_def)

theorem getKidStats_threshold_witness:
  "getKidStats (sample_db [] [sample_conversation 1 7 [10, 11, 12, 13, 14, 15] (utc_instant 2024 6 12 7 0)])
     (utc_instant 2024 6 12 8 0) (utc_instant 2024 6 12 8 0) (utc_instant 2024 6 12 8 0)
     (utc_instant 2024 6 12 8 0) 7 (- 120)
   = \<lparr>currentWeekStats = 1, previousWeekStats = 0, todayStats = 1, yesterdayStats = 0\<rparr>
   \<and> getKidStats (sample_db [] [sample_conversation 1 7 [10, 11, 12, 13, 14] (utc_instant 2024 6 12 7 0)])
     (utc_instant 2024 6 12 8 0) (utc_instant 2024 6 12 8 0) (utc_instant 2024 6 12 8 0)
     (utc_instant 2024 6 12 8 0) 7 (- 120)
   = \<lparr>currentWeekStats = 0, previousWeekStats = 0, todayStats = 0, yesterdayStats = 0\<rparr>"
proof -
  let ?now = "utc_instant 2024 6 12 8 0"
  let ?c6 = "sample_conversation 1 7 [10, 11, 12, 13, 14, 15] (utc_instant 2024 6 12 7 0)"
  let ?c5 = "sample_conversation 1 7 [10, 11, 12, 13, 14] (utc_instant 2024 6 12 7 0)"
  have e: "getKidStats (sample_db [] []) ?now ?now ?now ?now 7 (- 120)
      = \<lparr>currentWeekStats = 0, previousWeekStats = 0, todayStats = 0, yesterdayStats = 0\<rparr>"
    by (simp add: getKidStats_def sample_db_def)
  have h6: "conversationColl (sample_db [] [?c6]) = [] @ ?c6 # []"
    and h5: "conversationColl (sample_db [] [?c5]) = [] @ ?c5 # []"
    and h0: "conversationColl (sample_db [] []) = [] @ []"
    by (simp_all add: sample_db_def)
  have t: "getStartOfCurrentWeekUTC ?now (- 120) = 1717970400000"
    "getStartOfPreviousWeekUTC ?now (- 120) = 1717365600000"
    "getStartOfTodayUTC ?now (- 120) = 1718143200000"
    "getStartOfYesterdayUTC ?now (- 120) = 1718056800000"
    "utc_instant 2024 6 12 7 0 = 1718175600000"
    by (simp_all add: getStartOfCurrentWeekUTC_def getStartOfPreviousWeekUTC_def getStartOfTodayUTC_def
        getStartOfYesterdayUTC_def subtract_minutes_def add_minutes_def subtract_days_def
        startOf_isoWeek_def startOf_day_def isoWeekday_def ms_per_day_def ms_per_minute_def
        utc_instant_def days_from_civil_def)
  have a: "getKidStats (sample_db [] [?c6]) ?now ?now ?now ?now 7 (- 120)
      = \<lparr>currentWeekStats = 1, previousWeekStats = 0, todayStats = 1, yesterdayStats = 0\<rparr>"
    using getKidStats_threshold [OF h6 h0, of ?now ?now ?now ?now 7 "- 120"]
    by (simp add: e t Let_def sample_conversation_def)
  have b: "getKidStats (sample_db [] [?c5]) ?now ?now ?now ?now 7 (- 120)
      = \<lparr>currentWeekStats = 0, previousWeekStats = 0, todayStats = 0, yesterdayStats = 0\<rparr>"
    using getKidStats_threshold [OF h5 h0, of ?now ?now ?now ?now 7 "- 120"]
    by (simp add: e Let_def sample_conversation_def)
  from a b show ?thesis by simp
qed

section \<open>The context window\<close>

lemma map_turns_turn_of:
  "\<forall>m\<in>set h. m_content m \<noteq> [] \<Longrightarrow> map_turns h = Inr (map turn_of h)"
  by (induction h) (auto simp: turn_of_def split: list.splits)

lemma turn_of_single: "length (m_content m) = 1 \<Longrightarrow> t_content (turn_of m) = m_content m"
  by (simp add: turn_of_def)

lemma js_slice_last: "0 < n \<Longrightarrow> js_slice (- int n) xs = drop (length xs - n) xs"
  by (simp add: js_slice_def Let_def max_def nat_diff_distrib')

text \<open>
  The mapping and the cut on any list of messages that all have a content block: the
  last 20 in order, or the whole list when it has fewer than 20.
\<close>

lemma currentConversation_last20:
  assumes "\<forall>m\<in>set history. m_content m \<noteq> []"
  shows "(20 \<le> length history \<longrightarrow>
            currentConversation history = Inr (map turn_of (drop (length history - 20) history))
          \<and> length (map turn_of (drop (length history - 20) history)) = 20
          \<and> (\<forall>i<20. map turn_of (drop (length history - 20) history) ! i
                       = turn_of (history ! (length history - 20 + i))))
       \<and> (length history < 20 \<longrightarrow> currentConversation history = Inr (map turn_of history))"
proof -
  have w: "currentConversation history = Inr (map turn_of (drop (length history - 20) history))"
    using js_slice_last [of 20 "map turn_of history"]
    by (simp add: currentConversation_def map_turns_turn_of [OF assms] drop_map)
  show ?thesis
    by (simp add: w)
qed

lemma currentConversation_last20_examples:
  "currentConversation (map (\<lambda>i. sample_message i (int i)) [0..<21])
     = Inr (map (\<lambda>i. turn_of (sample_message i (int i))) [1..<21])
   \<and> currentConversation [sample_message 0 5, sample_message 1 6]
     = Inr [turn_of (sample_message 0 5), turn_of (sample_message 1 6)]"
proof -
  have h1: "\<forall>m\<in>set (map (\<lambda>i. sample_message i (int i)) [0..<21]). m_content m \<noteq> []"
    by (simp add: sample_message_def)
  have h2: "\<forall>m\<in>set [sample_message 0 5, sample_message 1 6]. m_content m \<noteq> []"
    by (simp add: sample_message_def)
  have d: "drop 1 [0..<21] = [1..<21]" by (simp add: drop_upt)
  show ?thesis
    using currentConversation_last20 [OF h1] currentConversation_last20 [OF h2]
    by (simp add: drop_map d)
qed

section \<open>The conversation store\<close>

lemma sorted_populate: "sorted (map m_created_at (populate_messages coll refs))"
  by (simp add: populate_messages_def)

lemma populate_messages_set: "set refs = set refs' \<Longrightarrow> populate_messages coll refs = populate_messages coll refs'"
  by (simp add: populate_messages_def)

lemma find_replace_first:
  "find (\<lambda>c. c_id c = i) cs = Some c \<Longrightarrow> c_id c' = i \<Longrightarrow>
   find (\<lambda>c. c_id c = i) (replace_first i c' cs) = Some c'"
  by (induction cs) (auto split: if_splits)

lemma find_replace_first_None:
  "find (\<lambda>c. c_id c = i) cs = None \<Longrightarrow> replace_first i c' cs = cs"
  by (induction cs) (auto split: if_splits)

lemma find_c_id: "find (\<lambda>c. c_id c = i) cs = Some c \<Longrightarrow> c_id c = i"
  by (induction cs) (auto split: if_splits)

lemma updateConversation_Some:
  assumes "find (\<lambda>c. c_id c = cid) (conversationColl db) = Some c"
  shows "\<exists>c'. find (\<lambda>c. c_id c = cid) (conversationColl (fst (updateConversation db now cid mid))) = Some c'
           \<and> c_messages c' = addToSet (c_messages c) mid
           \<and> messageColl (fst (updateConversation db now cid mid)) = messageColl db
           \<and> nextOid (fst (updateConversation db now cid mid)) = nextOid db
           \<and> snd (updateConversation db now cid mid) = Some (populate db c')
           \<and> c_id c' = cid \<and> c_owner c' = c_owner c \<and> c_created_at c' = c_created_at c"
  using assms find_c_id [OF assms]
  by (simp add: updateConversation_def Let_def find_replace_first populate_def)

lemma updateConversation_None:
  assumes "find (\<lambda>c. c_id c = cid) (conversationColl db) = None"
  shows "updateConversation db now cid mid = (db, None)"
  using assms by (simp add: updateConversation_def)

lemma set_addToSet: "set (addToSet xs x) = insert x (set xs)"
  by (auto simp: addToSet_def)

lemma append_calls_Some:
  "find (\<lambda>c. c_id c = cid) (conversationColl db) = Some c \<Longrightarrow>
   \<exists>c'. find (\<lambda>c. c_id c = cid) (conversationColl (append_calls db cid calls)) = Some c'
        \<and> set (c_messages c') = set (c_messages c) \<union> snd ` set calls
        \<and> messageColl (append_calls db cid calls) = messageColl db"
proof (induction calls arbitrary: db c)
  case Nil
  then show ?case by simp
next
  case (Cons call calls)
  obtain now mid where call: "call = (now, mid)" by (cases call)
  from updateConversation_Some [OF Cons.prems, of now mid]
  obtain c1 where c1: "find (\<lambda>c. c_id c = cid) (conversationColl (fst (updateConversation db now cid mid))) = Some c1"
    "c_messages c1 = addToSet (c_messages c) mid"
    "messageColl (fst (updateConversation db now cid mid)) = messageColl db"
    by blast
  from Cons.IH [OF c1(1)] show ?case
    by (auto simp: call c1 set_addToSet)
qed

lemma length_filter_key_distinct:
  "distinct (map f xs) \<Longrightarrow> k \<in> f ` set xs \<Longrightarrow> length (filter (\<lambda>y. f y = k) xs) = 1"
proof (induction xs)
  case Nil
  then show ?case by simp
next
  case (Cons x xs)
  show ?case
  proof (cases "f x = k")
    case True
    then have "filter (\<lambda>y. f y = k) xs = []"
      using Cons.prems(1) by (force simp: filter_empty_conv image_iff)
    with True show ?thesis by simp
  next
    case False
    then show ?thesis using Cons by auto
  qed
qed

lemma populate_count:
  assumes "distinct (map m_id coll)" and "mid \<in> m_id ` set coll" and "mid \<in> set refs"
  shows "length (filter (\<lambda>m. m_id m = mid) (populate_messages coll refs)) = 1"
proof -
  have "filter (\<lambda>m. m_id m = mid) (populate_messages coll refs)
        = sort_key m_created_at (filter (\<lambda>m. m_id m = mid) (filter (\<lambda>m. m_id m \<in> set refs) coll))"
    by (simp add: populate_messages_def filter_sort)
  also have "filter (\<lambda>m. m_id m = mid) (filter (\<lambda>m. m_id m \<in> set refs) coll) = filter (\<lambda>m. m_id m = mid) coll"
    using assms(3) by (auto intro: filter_cong)
  finally show ?thesis
    using length_filter_key_distinct [OF assms(1,2)] by simp
qed

lemma map_c_messages_replace_first:
  "find (\<lambda>c. c_id c = i) cs = Some c \<Longrightarrow> c_messages c' = c_messages c \<Longrightarrow>
   map c_messages (replace_first i c' cs) = map c_messages cs"
  by (induction cs) (auto split: if_splits)

lemma addToSet_member: "x \<in> set xs \<Longrightarrow> addToSet xs x = xs"
  by (simp add: addToSet_def)

lemma addToSet_fresh: "x \<notin> set xs \<Longrightarrow> addToSet xs x = xs @ [x]"
  by (simp add: addToSet_def)

text \<open>
  C4. On an existing conversation, \<^verbatim>\<open>updateConversation\<close> returns the messages
  sorted by creation time, in non-decreasing order. Two sequences of calls that add the
  same message ids in different orders both return a sorted list, and the two lists hold
  the same messages: the order is chronological and not the order of insertion.
\<close>

theorem updateConversation_chronological:
  assumes "find (\<lambda>c. c_id c = cid) (conversationColl db) = Some c"
    and "insert mid (snd ` set calls) = insert mid' (snd ` set calls')"
  shows "map_option (\<lambda>r. sorted (map m_created_at (p_messages r)))
           (snd (updateConversation (append_calls db cid calls) now cid mid)) = Some True
       \<and> map_option (\<lambda>r. sorted (map m_created_at (p_messages r)))
           (snd (updateConversation (append_calls db cid calls') now' cid mid')) = Some True
       \<and> map_option (\<lambda>r. mset (p_messages r))
           (snd (updateConversation (append_calls db cid calls) now cid mid))
         = map_option (\<lambda>r. mset (p_messages r))
           (snd (updateConversation (append_calls db cid calls') now' cid mid'))"
proof -
  from append_calls_Some [OF assms(1), of calls] obtain c1 where
    c1: "find (\<lambda>c. c_id c = cid) (conversationColl (append_calls db cid calls)) = Some c1"
      "set (c_messages c1) = set (c_messages c) \<union> snd ` set calls"
      "messageColl (append_calls db cid calls) = messageColl db" by blast
  from append_calls_Some [OF assms(1), of calls'] obtain c2 where
    c2: "find (\<lambda>c. c_id c = cid) (conversationColl (append_calls db cid calls')) = Some c2"
      "set (c_messages c2) = set (c_messages c) \<union> snd ` set calls'"
      "messageColl (append_calls db cid calls') = messageColl db" by blast
  from updateConversation_Some [OF c1(1), of now mid] obtain d1 where
    d1: "c_messages d1 = addToSet (c_messages c1) mid"
      "snd (updateConversation (append_calls db cid calls) now cid mid)
        = Some (populate (append_calls db cid calls) d1)"
    by blast
  from updateConversation_Some [OF c2(1), of now' mid'] obtain d2 where
    d2: "c_messages d2 = addToSet (c_messages c2) mid'"
      "snd (updateConversation (append_calls db cid calls') now' cid mid')
        = Some (populate (append_calls db cid calls') d2)"
    by blast
  have s: "set (c_messages d1) = set (c_messages d2)"
    using assms(2) by (auto simp: d1(1) d2(1) c1(2) c2(2) set_addToSet)
  show ?thesis
    by (simp add: d1(2) d2(2) populate_def c1(3) c2(3) sorted_populate populate_messages_set [OF s])
qed

theorem updateConversation_chronological_witness:
  "map_option (map m_id \<circ> p_messages)
     (snd (updateConversation
        (append_calls (sample_db [sample_message 10 300, sample_message 11 100, sample_message 12 200]
                         [sample_conversation 100 7 [] 0]) 100 [(1, 10), (2, 11)]) 3 100 12))
   = Some [11, 12, 10]
   \<and> map_option (map m_id \<circ> p_messages)
     (snd (updateConversation
        (append_calls (sample_db [sample_message 10 300, sample_message 11 100, sample_message 12 200]
                         [sample_conversation 100 7 [] 0]) 100 [(4, 12), (5, 11)]) 6 100 10))
   = Some [11, 12, 10]"
proof -
  let ?db = "sample_db [sample_message 10 300, sample_message 11 100, sample_message 12 200]
               [sample_conversation 100 7 [] 0]"
  have f: "find (\<lambda>c. c_id c = 100) (conversationColl ?db) = Some (sample_conversation 100 7 [] 0)"
    by (simp add: sample_db_def sample_conversation_def)
  have s: "insert (12::nat) (snd ` set [(1::int, 10), (2, 11)]) = insert 10 (snd ` set [(4::int, 12), (5, 11)])"
    by auto
  have a: "map_option (map m_id \<circ> p_messages)
     (snd (updateConversation (append_calls ?db 100 [(1, 10), (2, 11)]) 3 100 12)) = Some [11, 12, 10]"
    by (simp add: updateConversation_def sample_db_def sample_conversation_def sample_message_def
        Let_def addToSet_def populate_def populate_messages_def)
  have b: "map_option (map m_id \<circ> p_messages)
       (snd (updateConversation (append_calls ?db 100 [(4, 12), (5, 11)]) 6 100 10)) = Some [11, 12, 10]"
    using updateConversation_chronological [OF f s, of 3 6]
    by (simp add: updateConversation_def sample_db_def sample_conversation_def sample_message_def
        Let_def addToSet_def populate_def populate_messages_def)
  from a b show ?thesis by (rule conjI)
qed

text \<open>
  C5. On an existing conversation and for the id of a stored message, calling
  \<^verbatim>\<open>updateConversation\<close> twice with the same message id returns, both times, a
  list of messages in which the message appears exactly once, and the second call leaves
  the reference list of every conversation and the message collection as they were.
\<close>

theorem updateConversation_idempotent:
  assumes "find (\<lambda>c. c_id c = cid) (conversationColl db) = Some c"
    and "distinct (map m_id (messageColl db))"
    and "mid \<in> m_id ` set (messageColl db)"
  shows "(let (db1, r1) = updateConversation db t1 cid mid;
              (db2, r2) = updateConversation db1 t2 cid mid
          in map_option (\<lambda>uc. length (filter (\<lambda>m. m_id m = mid) (p_messages uc))) r1 = Some 1
           \<and> map_option (\<lambda>uc. length (filter (\<lambda>m. m_id m = mid) (p_messages uc))) r2 = Some 1
           \<and> map c_messages (conversationColl db2) = map c_messages (conversationColl db1)
           \<and> messageColl db2 = messageColl db1)"
proof -
  define db1 where "db1 = fst (updateConversation db t1 cid mid)"
  define c1 where "c1 = c\<lparr>c_messages := addToSet (c_messages c) mid, c_updated_at := t1\<rparr>"
  have u1: "updateConversation db t1 cid mid = (db1, Some (populate db1 c1))"
    using assms(1) by (simp add: db1_def c1_def updateConversation_def Let_def)
  have f1: "find (\<lambda>c. c_id c = cid) (conversationColl db1) = Some c1"
    using assms(1) find_c_id [OF assms(1)]
    by (simp add: db1_def c1_def updateConversation_def Let_def find_replace_first)
  have m1: "messageColl db1 = messageColl db"
    using assms(1) by (simp add: db1_def updateConversation_def Let_def)
  have in1: "mid \<in> set (c_messages c1)"
    by (simp add: c1_def set_addToSet)
  define c2 where "c2 = c1\<lparr>c_messages := addToSet (c_messages c1) mid, c_updated_at := t2\<rparr>"
  define db2 where "db2 = db1\<lparr>conversationColl := replace_first cid c2 (conversationColl db1)\<rparr>"
  have u2: "updateConversation db1 t2 cid mid = (db2, Some (populate db2 c2))"
    using f1 by (simp add: db2_def c2_def updateConversation_def Let_def)
  have same: "c_messages c2 = c_messages c1"
    by (simp add: c2_def addToSet_member [OF in1])
  have r1: "length (filter (\<lambda>m. m_id m = mid) (p_messages (populate db1 c1))) = 1"
    using populate_count [OF assms(2,3) in1] by (simp add: populate_def m1)
  have r2: "length (filter (\<lambda>m. m_id m = mid) (p_messages (populate db2 c2))) = 1"
    using populate_count [OF assms(2,3) in1] by (simp add: populate_def db2_def m1 same)
  have refs: "map c_messages (conversationColl db2) = map c_messages (conversationColl db1)"
    by (simp add: db2_def map_c_messages_replace_first [OF f1 same])
  show ?thesis
    by (simp add: u1 u2 r1 r2 refs) (simp add: db2_def)
qed

theorem updateConversation_idempotent_witness:
  "map_option (map m_id \<circ> p_messages)
     (snd (updateConversation
        (fst (updateConversation
           (sample_db [sample_message 10 300, sample_message 11 100] [sample_conversation 100 7 [11] 0])
           1 100 10)) 2 100 10))
   = Some [11, 10]
  \<and> map c_messages (conversationColl
        (fst (updateConversation
        (fst (updateConversation
           (sample_db [sample_message 10 300, sample_message 11 100] [sample_conversation 100 7 [11] 0])
           1 100 10)) 2 100 10)))
   = [[11, 10]]"
proof -
  let ?db = "sample_db [sample_message 10 300, sample_message 11 100] [sample_conversation 100 7 [11] 0]"
  have f: "find (\<lambda>c. c_id c = 100) (conversationColl ?db) = Some (sample_conversation 100 7 [11] 0)"
    by (simp add: sample_db_def sample_conversation_def)
  have d: "distinct (map m_id (messageColl ?db))"
    by (simp add: sample_db_def sample_message_def)
  have m: "10 \<in> m_id ` set (messageColl ?db)"
    by (simp add: sample_db_def sample_message_def)
  show ?thesis
    using updateConversation_idempotent [OF f d m, of 1 2]
    by (simp add: updateConversation_def sample_db_def sample_conversation_def sample_message_def
        Let_def addToSet_def populate_def populate_messages_def)
qed

section \<open>The turn: chatWithLexi\<close>

lemma user_role_enum: "ascii ''user'' \<in> set role_enum"
  by (simp add: role_enum_def)

lemma newMessage_ok:
  "role \<in> set role_enum \<Longrightarrow> text \<noteq> [] \<Longrightarrow>
   newMessage db now role (Some text) cid =
     (db\<lparr>messageColl := messageColl db @
            [\<lparr>m_id = nextOid db, m_role = role,
              m_content = [\<lparr>block_type = ascii ''text'', block_text = text\<rparr>],
              m_conversation = cid, m_created_at = now, m_updated_at = now\<rparr>],
         nextOid := Suc (nextOid db)\<rparr>,
      Inr \<lparr>m_id = nextOid db, m_role = role,
           m_content = [\<lparr>block_type = ascii ''text'', block_text = text\<rparr>],
           m_conversation = cid, m_created_at = now, m_updated_at = now\<rparr>)"
  by (simp add: newMessage_def Let_def)

lemma newMessage_rejected:
  "\<not> (role \<in> set role_enum \<and> input \<noteq> None \<and> input \<noteq> Some []) \<Longrightarrow>
   fst (newMessage db now role input cid) = db \<and> isl (snd (newMessage db now role input cid))"
  by (auto simp: newMessage_def split: option.splits)

text \<open>
  C1 (as the code has it). \<^verbatim>\<open>updateConversation\<close> with a conversation id that is
  not in the store does not fail: it resolves to \<^verbatim>\<open>null\<close> and leaves the store as it
  was. \<^verbatim>\<open>chatWithLexi\<close> on such an id, with a non-empty text, then fails with the
  service error of status 500 that wraps the \<^verbatim>\<open>TypeError\<close> of reading
  \<^verbatim>\<open>null\<close>, and no conversation is changed.
\<close>

theorem updateConversation_unknown:
  assumes "find (\<lambda>c. c_id c = cid) (conversationColl db) = None"
  shows "updateConversation db now cid mid = (db, None)
       \<and> (text \<noteq> [] \<longrightarrow>
            snd (chatWithLexi texts llm db t1 t2 t3 t4 text cid user)
              = Inl (HttpError 500 ''Error during AI response generation.''
                       (Some ''Cannot read properties of null (reading 'messages')''))
          \<and> conversationColl (fst (chatWithLexi texts llm db t1 t2 t3 t4 text cid user))
              = conversationColl db)"
proof -
  have a: "updateConversation db now cid mid = (db, None)"
    using assms by (rule updateConversation_None)
  have b: "snd (chatWithLexi texts llm db t1 t2 t3 t4 text cid user)
              = Inl (HttpError 500 ''Error during AI response generation.''
                       (Some ''Cannot read properties of null (reading 'messages')''))
          \<and> conversationColl (fst (chatWithLexi texts llm db t1 t2 t3 t4 text cid user))
              = conversationColl db" if "text \<noteq> []"
  proof -
    let ?db1 = "fst (newMessage db t1 (ascii ''user'') (Some text) cid)"
    have c: "conversationColl ?db1 = conversationColl db"
      by (simp add: newMessage_ok [OF user_role_enum that])
    have u: "updateConversation ?db1 t2 cid (nextOid db) = (?db1, None)"
      using assms by (simp add: updateConversation_None c)
    have r: "recordUserTurn db t1 t2 text cid
        = (?db1, Inl (TypeError ''Cannot read properties of null (reading 'messages')''))"
      using u by (simp add: recordUserTurn_def newMessage_ok [OF user_role_enum that])
    show ?thesis
      using c by (simp add: chatWithLexi_def r service_error_def)
  qed
  from a b show ?thesis by blast
qed

text \<open>
  On the empty database, \<^verbatim>\<open>updateConversation\<close> for conversation 7 resolves to
  \<^verbatim>\<open>null\<close>, and a turn on conversation 7 ends in the error of status 500: no
  not-found error (status 404) is raised.
\<close>

theorem updateConversation_unknown_counterexample:
  "snd (updateConversation empty_database 5 7 3) = None
   \<and> snd (chatWithLexi sample_texts (\<lambda>rq. LlmReply (ascii ''assistant'') (Some (ascii ''ok'')))
            empty_database 10 11 12 13 (ascii ''hi'') 7 sample_user)
     = Inl (HttpError 500 ''Error during AI response generation.''
              (Some ''Cannot read properties of null (reading 'messages')''))"
  by (simp add: updateConversation_def empty_database_def chatWithLexi_def recordUserTurn_def
      newMessage_def role_enum_def ascii_def service_error_def Let_def)

theorem updateConversation_unknown_witness:
  "updateConversation empty_database 5 7 3 = (empty_database, None)
   \<and> conversationColl (fst (chatWithLexi sample_texts (\<lambda>rq. LlmError ''timeout'')
            empty_database 10 11 12 13 (ascii ''hi'') 7 sample_user)) = []"
proof -
  have h: "find (\<lambda>c. c_id c = 7) (conversationColl empty_database) = None"
    by (simp add: empty_database_def)
  have n: "ascii ''hi'' \<noteq> []" by (simp add: ascii_def)
  show ?thesis
    using updateConversation_unknown [OF h, of 5 3 "ascii ''hi''" sample_texts "\<lambda>rq. LlmError ''timeout''" 10 11 12 13 sample_user] n
    by (simp add: empty_database_def)
qed

lemma message_count_Some:
  "find (\<lambda>c. c_id c = cid) (conversationColl db) = Some c \<Longrightarrow> message_count db cid = length (c_messages c)"
  by (simp add: message_count_def)

lemma find_in_set: "find P xs = Some x \<Longrightarrow> x \<in> set xs"
  by (induction xs) (auto split: if_splits)

lemma wf_db_fresh:
  assumes "wf_db db" and "find (\<lambda>c. c_id c = cid) (conversationColl db) = Some c"
  shows "\<forall>r\<in>set (c_messages c). r < nextOid db"
  using assms(1) find_in_set [OF assms(2)] by (simp add: wf_db_def)

lemma populate_messages_subset: "set (populate_messages coll refs) \<subseteq> set coll"
  by (auto simp: populate_messages_def)

text \<open>The state after the user's turn, spelled out.\<close>

lemma recordUserTurn_existing:
  assumes wf: "wf_db db"
    and c: "find (\<lambda>c. c_id c = cid) (conversationColl db) = Some c"
    and nonempty: "text \<noteq> []"
  shows "\<exists>db2 c2 window.
           recordUserTurn db t1 t2 text cid = (db2, Inr window)
         \<and> find (\<lambda>c. c_id c = cid) (conversationColl db2) = Some c2
         \<and> c_messages c2 = c_messages c @ [nextOid db]
         \<and> nextOid db2 = Suc (nextOid db)"
proof -
  let ?m = "\<lparr>m_id = nextOid db, m_role = ascii ''user'',
            m_content = [\<lparr>block_type = ascii ''text'', block_text = text\<rparr>],
            m_conversation = cid, m_created_at = t1, m_updated_at = t1\<rparr>"
  let ?db1 = "db\<lparr>messageColl := messageColl db @ [?m], nextOid := Suc (nextOid db)\<rparr>"
  have n: "newMessage db t1 (ascii ''user'') (Some text) cid = (?db1, Inr ?m)"
    by (rule newMessage_ok [OF user_role_enum nonempty])
  have c1: "find (\<lambda>c. c_id c = cid) (conversationColl ?db1) = Some c"
    using c by simp
  have fresh: "nextOid db \<notin> set (c_messages c)"
    using wf_db_fresh [OF wf c] by auto
  let ?c2 = "c\<lparr>c_messages := c_messages c @ [nextOid db], c_updated_at := t2\<rparr>"
  let ?db2 = "?db1\<lparr>conversationColl := replace_first cid ?c2 (conversationColl ?db1)\<rparr>"
  have u: "updateConversation ?db1 t2 cid (nextOid db) = (?db2, Some (populate ?db2 ?c2))"
    using c fresh by (simp add: updateConversation_def Let_def addToSet_def)
  have content: "\<forall>m\<in>set (messageColl ?db2). m_content m \<noteq> []"
    using wf by (auto simp: wf_db_def)
  have "\<forall>m\<in>set (p_messages (populate ?db2 ?c2)). m_content m \<noteq> []"
    using content populate_messages_subset [of "messageColl ?db2" "c_messages ?c2"]
    by (auto simp: populate_def)
  then have w: "currentConversation (p_messages (populate ?db2 ?c2))
      = Inr (js_slice (- 20) (map turn_of (p_messages (populate ?db2 ?c2))))"
    by (simp add: currentConversation_def map_turns_turn_of)
  have r: "recordUserTurn db t1 t2 text cid
      = (?db2, Inr (js_slice (- 20) (map turn_of (p_messages (populate ?db2 ?c2)))))"
    by (simp only: recordUserTurn_def n u w prod.case sum.case option.case message.simps)
  have f2: "find (\<lambda>c. c_id c = cid) (conversationColl ?db2) = Some ?c2"
    using c find_c_id [OF c] by (simp add: find_replace_first)
  have "recordUserTurn db t1 t2 text cid
          = (?db2, Inr (js_slice (- 20) (map turn_of (p_messages (populate ?db2 ?c2)))))
        \<and> find (\<lambda>c. c_id c = cid) (conversationColl ?db2) = Some ?c2
        \<and> c_messages ?c2 = c_messages c @ [nextOid db]
        \<and> nextOid ?db2 = Suc (nextOid db)"
    using r f2 by simp
  then show ?thesis by blast
qed

lemma assistant_turn:
  assumes c2: "find (\<lambda>c. c_id c = cid) (conversationColl db2) = Some c2"
    and fresh: "nextOid db2 \<notin> set (c_messages c2)"
    and role: "role \<in> set role_enum" and nonempty: "text \<noteq> []"
  shows "message_count
           (fst (updateConversation (fst (newMessage db2 t3 role (Some text) cid)) t4 cid (nextOid db2))) cid
         = Suc (length (c_messages c2))"
proof -
  let ?db3 = "fst (newMessage db2 t3 role (Some text) cid)"
  have c3: "find (\<lambda>c. c_id c = cid) (conversationColl ?db3) = Some c2"
    using c2 by (simp add: newMessage_ok [OF role nonempty])
  from updateConversation_Some [OF c3, of t4 "nextOid db2"] obtain c4 where
    c4: "find (\<lambda>c. c_id c = cid) (conversationColl (fst (updateConversation ?db3 t4 cid (nextOid db2)))) = Some c4"
      "c_messages c4 = addToSet (c_messages c2) (nextOid db2)"
    by blast
  show ?thesis
    using fresh by (simp add: message_count_Some [OF c4(1)] c4(2) addToSet_def)
qed

text \<open>
  C2 (as the code has it). On a well-formed database, for an existing conversation and a
  non-empty text, \<^verbatim>\<open>chatWithLexi\<close> always records the user's turn and reaches the
  language model with the window. When the model call fails, the conversation has exactly
  1 message more than before and the call fails with the service error. When the model
  replies and the reply is a valid message (a role of the enum and a non-empty text), the
  conversation has exactly 2 messages more and the reply is returned. When the model
  replies with something the message schema rejects, the conversation has exactly 1
  message more and the call fails. The conversation never keeps its count.
\<close>

theorem chatWithLexi_message_count:
  assumes wf: "wf_db db"
    and c: "find (\<lambda>c. c_id c = cid) (conversationColl db) = Some c"
    and nonempty: "text \<noteq> []"
  shows "(case snd (recordUserTurn db t1 t2 text cid) of
            Inl e \<Rightarrow> False
          | Inr window \<Rightarrow>
              (let out = chatWithLexi texts llm db t1 t2 t3 t4 text cid user in
               case llm (completion_request (setSystemPrompt texts (fullName user)) window) of
                 LlmError msg \<Rightarrow>
                   message_count (fst out) cid = message_count db cid + 1
                   \<and> snd out = Inl (service_error (ProviderError msg))
               | LlmReply role content \<Rightarrow>
                   if role \<in> set role_enum \<and> content \<noteq> None \<and> content \<noteq> Some []
                   then message_count (fst out) cid = message_count db cid + 2
                        \<and> snd out = Inr \<lparr>r_role = role, r_content = content, r_conversationId = cid\<rparr>
                   else message_count (fst out) cid = message_count db cid + 1 \<and> isl (snd out)))"
proof -
  from recordUserTurn_existing [OF wf c nonempty, of t1 t2] obtain db2 c2 window where
    r: "recordUserTurn db t1 t2 text cid = (db2, Inr window)"
    and c2: "find (\<lambda>c. c_id c = cid) (conversationColl db2) = Some c2"
    and m2: "c_messages c2 = c_messages c @ [nextOid db]"
    and n2: "nextOid db2 = Suc (nextOid db)"
    by blast
  have count0: "message_count db cid = length (c_messages c)"
    by (rule message_count_Some [OF c])
  have count2: "message_count db2 cid = length (c_messages c) + 1"
    by (simp add: message_count_Some [OF c2] m2)
  have fresh: "nextOid db2 \<notin> set (c_messages c2)"
    using wf_db_fresh [OF wf c] by (auto simp: m2 n2)
  let ?out = "chatWithLexi texts llm db t1 t2 t3 t4 text cid user"
  let ?reply = "llm (completion_request (setSystemPrompt texts (fullName user)) window)"
  have "case ?reply of
          LlmError msg \<Rightarrow>
            message_count (fst ?out) cid = message_count db cid + 1
            \<and> snd ?out = Inl (service_error (ProviderError msg))
        | LlmReply role content \<Rightarrow>
            if role \<in> set role_enum \<and> content \<noteq> None \<and> content \<noteq> Some []
            then message_count (fst ?out) cid = message_count db cid + 2
                 \<and> snd ?out = Inr \<lparr>r_role = role, r_content = content, r_conversationId = cid\<rparr>
            else message_count (fst ?out) cid = message_count db cid + 1 \<and> isl (snd ?out)"
  proof (cases ?reply)
    case (LlmError msg)
    then show ?thesis
      by (simp add: chatWithLexi_def r count0 count2)
  next
    case (LlmReply role content)
    show ?thesis
    proof (cases "role \<in> set role_enum \<and> content \<noteq> None \<and> content \<noteq> Some []")
      case True
      then obtain t where t: "content = Some t" "t \<noteq> []" "role \<in> set role_enum" by auto
      have n3: "newMessage db2 t3 role (Some t) cid
          = (fst (newMessage db2 t3 role (Some t) cid),
             Inr \<lparr>m_id = nextOid db2, m_role = role,
                  m_content = [\<lparr>block_type = ascii ''text'', block_text = t\<rparr>],
                  m_conversation = cid, m_created_at = t3, m_updated_at = t3\<rparr>)"
        by (simp add: newMessage_ok [OF t(3) t(2)])
      have out: "?out = (fst (updateConversation (fst (newMessage db2 t3 role (Some t) cid)) t4 cid (nextOid db2)),
                         Inr \<lparr>r_role = role, r_content = content, r_conversationId = cid\<rparr>)"
        unfolding chatWithLexi_def Let_def r prod.case sum.case LlmReply llm_outcome.case t(1)
        by (subst n3) (simp add: case_prod_beta)
      show ?thesis
        using True assistant_turn [OF c2 fresh t(3) t(2), of t3 t4]
        by (simp add: LlmReply out count0 m2 t(1))
    next
      case False
      from newMessage_rejected [OF False, of db2 t3 cid]
      have rej: "fst (newMessage db2 t3 role content cid) = db2"
        "isl (snd (newMessage db2 t3 role content cid))" by simp_all
      then obtain e where e: "newMessage db2 t3 role content cid = (db2, Inl e)"
        by (cases "newMessage db2 t3 role content cid") (auto simp: isl_def)
      show ?thesis
        using False by (simp add: LlmReply chatWithLexi_def r e count0 count2)
    qed
  qed
  then show ?thesis
    by (simp add: r Let_def)
qed

lemma sample_wf: "wf_db (sample_db [] [sample_conversation 100 7 [] 0])"
  by (simp add: wf_db_def sample_db_def sample_conversation_def)

lemma sample_find:
  "find (\<lambda>c. c_id c = 100) (conversationColl (sample_db [] [sample_conversation 100 7 [] 0]))
     = Some (sample_conversation 100 7 [] 0)"
  by (simp add: sample_db_def sample_conversation_def)

lemma hi_nonempty: "ascii ''hi'' \<noteq> []"
  by (simp add: ascii_def)

lemma sample_recordUserTurn:
  "snd (recordUserTurn (sample_db [] [sample_conversation 100 7 [] 0]) 10 11 (ascii ''hi'') 100)
   = Inr [\<lparr>t_role = ascii ''user'', t_content = [\<lparr>block_type = ascii ''text'', block_text = ascii ''hi''\<rparr>]\<rparr>]"
  by (simp add: recordUserTurn_def newMessage_ok [OF user_role_enum hi_nonempty] updateConversation_def
      sample_db_def sample_conversation_def Let_def addToSet_def populate_def populate_messages_def
      currentConversation_def js_slice_def)

text \<open>
  A conversation without messages, and a model call that succeeds with the content
  \<^verbatim>\<open>null\<close>: afterwards the conversation has 1 message, not 2. A turn on an id
  that no conversation has changes no conversation.
\<close>

theorem chatWithLexi_message_count_counterexample:
  "message_count (sample_db [] [sample_conversation 100 7 [] 0]) 100 = 0
   \<and> message_count
       (fst (chatWithLexi sample_texts (\<lambda>rq. LlmReply (ascii ''assistant'') None)
              (sample_db [] [sample_conversation 100 7 [] 0]) 10 11 12 13 (ascii ''hi'') 100 sample_user)) 100 = 1
   \<and> conversationColl
       (fst (chatWithLexi sample_texts (\<lambda>rq. LlmReply (ascii ''assistant'') (Some (ascii ''ok'')))
              (sample_db [] [sample_conversation 100 7 [] 0]) 10 11 12 13 (ascii ''hi'') 2 sample_user))
     = conversationColl (sample_db [] [sample_conversation 100 7 [] 0])"
  by (simp add: chatWithLexi_def recordUserTurn_def newMessage_ok [OF user_role_enum hi_nonempty]
      newMessage_def updateConversation_def
      sample_db_def sample_conversation_def Let_def addToSet_def populate_def populate_messages_def
      currentConversation_def js_slice_def message_count_def role_enum_def hi_nonempty)

theorem chatWithLexi_message_count_witness:
  "message_count
       (fst (chatWithLexi sample_texts (\<lambda>rq. LlmReply (ascii ''assistant'') (Some (ascii ''ok'')))
              (sample_db [] [sample_conversation 100 7 [] 0]) 10 11 12 13 (ascii ''hi'') 100 sample_user)) 100 = 2
   \<and> message_count
       (fst (chatWithLexi sample_texts (\<lambda>rq. LlmError ''timeout'')
              (sample_db [] [sample_conversation 100 7 [] 0]) 10 11 12 13 (ascii ''hi'') 100 sample_user)) 100 = 1"
proof -
  have r: "ascii ''assistant'' \<in> set role_enum" "ascii ''ok'' \<noteq> []"
    by (simp_all add: role_enum_def ascii_def)
  have z: "message_count (sample_db [] [sample_conversation 100 7 [] 0]) 100 = 0"
    by (simp add: message_count_def sample_db_def sample_conversation_def)
  show ?thesis
    using chatWithLexi_message_count
        [where ?t1.0 = 10 and ?t2.0 = 11 and ?t3.0 = 12 and ?t4.0 = 13 and texts = sample_texts
           and user = sample_user and llm = "\<lambda>rq. LlmReply (ascii ''assistant'') (Some (ascii ''ok''))",
         OF sample_wf sample_find hi_nonempty]
      chatWithLexi_message_count
        [where ?t1.0 = 10 and ?t2.0 = 11 and ?t3.0 = 12 and ?t4.0 = 13 and texts = sample_texts
           and user = sample_user and llm = "\<lambda>rq. LlmError ''timeout''",
         OF sample_wf sample_find hi_nonempty]
    by (simp add: sample_recordUserTurn r z Let_def)
qed

section \<open>The window handed to the language model\<close>

lemma recordUserTurn_history:
  assumes wf: "wf_db db"
    and c: "find (\<lambda>c. c_id c = cid) (conversationColl db) = Some c"
    and nonempty: "text \<noteq> []"
  shows "snd (recordUserTurn db t1 t2 text cid)
           = currentConversation (history_of (fst (recordUserTurn db t1 t2 text cid)) cid)
       \<and> (\<forall>m\<in>set (history_of (fst (recordUserTurn db t1 t2 text cid)) cid). m_content m \<noteq> [])
       \<and> sorted (map m_created_at (history_of (fst (recordUserTurn db t1 t2 text cid)) cid))
       \<and> length (filter (\<lambda>m. m_id m = nextOid db \<and> m_role m = ascii ''user''
                               \<and> m_content m = [\<lparr>block_type = ascii ''text'', block_text = text\<rparr>])
                    (history_of (fst (recordUserTurn db t1 t2 text cid)) cid)) = 1"
proof -
  let ?m = "\<lparr>m_id = nextOid db, m_role = ascii ''user'',
            m_content = [\<lparr>block_type = ascii ''text'', block_text = text\<rparr>],
            m_conversation = cid, m_created_at = t1, m_updated_at = t1\<rparr>"
  let ?db1 = "db\<lparr>messageColl := messageColl db @ [?m], nextOid := Suc (nextOid db)\<rparr>"
  have n: "newMessage db t1 (ascii ''user'') (Some text) cid = (?db1, Inr ?m)"
    by (rule newMessage_ok [OF user_role_enum nonempty])
  have fresh: "nextOid db \<notin> set (c_messages c)"
    using wf_db_fresh [OF wf c] by auto
  let ?c2 = "c\<lparr>c_messages := c_messages c @ [nextOid db], c_updated_at := t2\<rparr>"
  let ?db2 = "?db1\<lparr>conversationColl := replace_first cid ?c2 (conversationColl ?db1)\<rparr>"
  have u: "updateConversation ?db1 t2 cid (nextOid db) = (?db2, Some (populate ?db2 ?c2))"
    using c fresh by (simp add: updateConversation_def Let_def addToSet_def)
  have r: "recordUserTurn db t1 t2 text cid
      = (?db2, currentConversation (p_messages (populate ?db2 ?c2)))"
    by (simp only: recordUserTurn_def n u prod.case sum.case option.case message.simps)
  have f2: "find (\<lambda>c. c_id c = cid) (conversationColl ?db2) = Some ?c2"
    using c find_c_id [OF c] by (simp add: find_replace_first)
  have h: "history_of ?db2 cid = p_messages (populate ?db2 ?c2)"
    by (simp only: history_of_def f2 option.case)
  have content: "\<forall>m\<in>set (messageColl ?db2). m_content m \<noteq> []"
    using wf by (auto simp: wf_db_def)
  have ne: "\<forall>m\<in>set (p_messages (populate ?db2 ?c2)). m_content m \<noteq> []"
    using content populate_messages_subset [of "messageColl ?db2" "c_messages ?c2"]
    by (auto simp: populate_def)
  have so: "sorted (map m_created_at (p_messages (populate ?db2 ?c2)))"
    by (simp add: populate_def sorted_populate)
  have old: "\<forall>m\<in>set (messageColl db). m_id m \<noteq> nextOid db"
    using wf by (auto simp: wf_db_def)
  have "filter (\<lambda>m. m_id m = nextOid db \<and> m_role m = ascii ''user''
                               \<and> m_content m = [\<lparr>block_type = ascii ''text'', block_text = text\<rparr>])
          (p_messages (populate ?db2 ?c2))
        = sort_key m_created_at (filter (\<lambda>m. m_id m = nextOid db \<and> m_role m = ascii ''user''
                               \<and> m_content m = [\<lparr>block_type = ascii ''text'', block_text = text\<rparr>])
            (filter (\<lambda>m. m_id m \<in> set (c_messages ?c2)) (messageColl ?db2)))"
    by (simp add: populate_def populate_messages_def filter_sort)
  also have "filter (\<lambda>m. m_id m = nextOid db \<and> m_role m = ascii ''user''
                               \<and> m_content m = [\<lparr>block_type = ascii ''text'', block_text = text\<rparr>])
            (filter (\<lambda>m. m_id m \<in> set (c_messages ?c2)) (messageColl ?db2)) = [?m]"
    using old by (simp add: filter_empty_conv)
  finally have one: "length (filter (\<lambda>m. m_id m = nextOid db \<and> m_role m = ascii ''user''
                               \<and> m_content m = [\<lparr>block_type = ascii ''text'', block_text = text\<rparr>])
          (p_messages (populate ?db2 ?c2))) = 1"
    by simp
  show ?thesis
    unfolding r fst_conv snd_conv h using ne so one by simp
qed

text \<open>
  C3. On a well-formed database, for an existing conversation and a non-empty text, let
  the history be the messages of the conversation after the user's turn, as the store
  returns them: sorted by creation time, \<open>N\<close> in all. The window that
  \<^verbatim>\<open>chatWithLexi\<close> builds is the history's last 20 messages in the same order, 20
  entries in all, when \<open>N \<ge> 20\<close>, and the whole history when \<open>N < 20\<close>; an entry is
  the role and the first content block of its message. The request handed to the language
  model carries the system turn followed by exactly this window, and the outcome of
  \<^verbatim>\<open>chatWithLexi\<close> is decided by the model's answer to this request.
\<close>

theorem chatWithLexi_window:
  assumes wf: "wf_db db"
    and c: "find (\<lambda>c. c_id c = cid) (conversationColl db) = Some c"
    and nonempty: "text \<noteq> []"
  shows "(let db2 = fst (recordUserTurn db t1 t2 text cid);
              history = history_of db2 cid;
              N = length history;
              window = map turn_of (drop (N - 20) history);
              systemPrompt = setSystemPrompt texts (fullName user);
              request = completion_request systemPrompt window
          in sorted (map m_created_at history)
           \<and> snd (recordUserTurn db t1 t2 text cid) = Inr window
           \<and> rq_messages request = system_turn systemPrompt # window
           \<and> chatWithLexi texts llm db t1 t2 t3 t4 text cid user
               = (case llm request of
                    LlmError msg \<Rightarrow> (db2, Inl (service_error (ProviderError msg)))
                  | LlmReply role content \<Rightarrow>
                      (case newMessage db2 t3 role content cid of
                         (db3, Inl e) \<Rightarrow> (db3, Inl (service_error e))
                       | (db3, Inr newAssistantMessage) \<Rightarrow>
                           (fst (updateConversation db3 t4 cid (m_id newAssistantMessage)),
                            Inr \<lparr>r_role = role, r_content = content, r_conversationId = cid\<rparr>)))
           \<and> (20 \<le> N \<longrightarrow>
                 length window = 20
               \<and> (\<forall>i<20. window ! i = turn_of (history ! (N - 20 + i))))
           \<and> (N < 20 \<longrightarrow> window = map turn_of history))"
proof -
  define db2 where "db2 = fst (recordUserTurn db t1 t2 text cid)"
  define history where "history = history_of db2 cid"
  define window where "window = map turn_of (drop (length history - 20) history)"
  define systemPrompt where "systemPrompt = setSystemPrompt texts (fullName user)"
  from recordUserTurn_history [OF wf c nonempty, of t1 t2]
  have s: "snd (recordUserTurn db t1 t2 text cid) = currentConversation history"
    and ne: "\<forall>m\<in>set history. m_content m \<noteq> []"
    and so: "sorted (map m_created_at history)"
    by (simp_all add: db2_def history_def)
  from currentConversation_last20 [OF ne]
  have w: "currentConversation history = Inr window"
    and big: "20 \<le> length history \<longrightarrow>
                 length window = 20 \<and> (\<forall>i<20. window ! i = turn_of (history ! (length history - 20 + i)))"
    and small: "length history < 20 \<longrightarrow> window = map turn_of history"
    by (cases "20 \<le> length history"; simp add: window_def)+
  have r: "recordUserTurn db t1 t2 text cid = (db2, Inr window)"
    using s w by (simp add: db2_def prod_eq_iff)
  have rq: "rq_messages (completion_request systemPrompt window) = system_turn systemPrompt # window"
    by (simp add: completion_request_def system_turn_def)
  have ch: "chatWithLexi texts llm db t1 t2 t3 t4 text cid user
               = (case llm (completion_request systemPrompt window) of
                    LlmError msg \<Rightarrow> (db2, Inl (service_error (ProviderError msg)))
                  | LlmReply role content \<Rightarrow>
                      (case newMessage db2 t3 role content cid of
                         (db3, Inl e) \<Rightarrow> (db3, Inl (service_error e))
                       | (db3, Inr newAssistantMessage) \<Rightarrow>
                           (fst (updateConversation db3 t4 cid (m_id newAssistantMessage)),
                            Inr \<lparr>r_role = role, r_content = content, r_conversationId = cid\<rparr>)))"
    unfolding chatWithLexi_def Let_def r prod.case sum.case systemPrompt_def
    by (auto split: llm_outcome.splits prod.splits sum.splits)
  show ?thesis
    unfolding Let_def db2_def [symmetric] history_def [symmetric] window_def [symmetric]
      systemPrompt_def [symmetric]
    using so r rq ch big small by simp
qed

text \<open>A conversation with twenty stored messages, for the example.\<close>

lemma sorted_int_upt: "sorted (map int [0..<n])"
  by (induction n) (auto simp: sorted_append)

lemma created_sample_messages:
  "map m_created_at (map (\<lambda>i. sample_message i (int i)) [0..<n]) = map int [0..<n]"
  by (simp add: sample_message_def)

lemma sorted_sample_messages:
  assumes "\<forall>i<n. int i \<le> m_created_at m"
  shows "sorted (map m_created_at (map (\<lambda>i. sample_message i (int i)) [0..<n] @ [m]))"
  using assms
  by (simp only: map_append created_sample_messages sorted_append sorted_int_upt list.map)
     (simp add: sorted_int_upt)

lemma sample_history_sorted:
  "sort_key m_created_at
     (map (\<lambda>i. sample_message i (int i)) [0..<20]
      @ [\<lparr>m_id = 1000, m_role = ascii ''user'',
           m_content = [\<lparr>block_type = ascii ''text'', block_text = ascii ''hi''\<rparr>],
           m_conversation = 100, m_created_at = 50, m_updated_at = 50\<rparr>])
   = map (\<lambda>i. sample_message i (int i)) [0..<20]
      @ [\<lparr>m_id = 1000, m_role = ascii ''user'',
           m_content = [\<lparr>block_type = ascii ''text'', block_text = ascii ''hi''\<rparr>],
           m_conversation = 100, m_created_at = 50, m_updated_at = 50\<rparr>]"
  by (rule sort_key_id_if_sorted, rule sorted_sample_messages) simp

lemma sample_history:
  "history_of
     (fst (recordUserTurn
             (sample_db (map (\<lambda>i. sample_message i (int i)) [0..<20])
                [sample_conversation 100 7 [0..<20] 0])
             50 51 (ascii ''hi'') 100)) 100
   = map (\<lambda>i. sample_message i (int i)) [0..<20]
      @ [\<lparr>m_id = 1000, m_role = ascii ''user'',
           m_content = [\<lparr>block_type = ascii ''text'', block_text = ascii ''hi''\<rparr>],
           m_conversation = 100, m_created_at = 50, m_updated_at = 50\<rparr>]"
  by (simp add: history_of_def recordUserTurn_def newMessage_ok [OF user_role_enum hi_nonempty]
      updateConversation_def sample_db_def sample_conversation_def sample_message_def Let_def
      addToSet_def populate_def populate_messages_def sample_history_sorted [unfolded sample_message_def])

lemma sample_history_small:
  "history_of
     (fst (recordUserTurn (sample_db [] [sample_conversation 100 7 [] 0]) 10 11 (ascii ''hi'') 100)) 100
   = [\<lparr>m_id = 1000, m_role = ascii ''user'',
        m_content = [\<lparr>block_type = ascii ''text'', block_text = ascii ''hi''\<rparr>],
        m_conversation = 100, m_created_at = 10, m_updated_at = 10\<rparr>]"
  by (simp add: history_of_def recordUserTurn_def newMessage_ok [OF user_role_enum hi_nonempty]
      updateConversation_def sample_db_def sample_conversation_def Let_def
      addToSet_def populate_def populate_messages_def)

lemma big_wf:
  "wf_db (sample_db (map (\<lambda>i. sample_message i (int i)) [0..<20]) [sample_conversation 100 7 [0..<20] 0])"
  by (simp add: wf_db_def sample_db_def sample_conversation_def sample_message_def comp_def)

lemma big_find:
  "find (\<lambda>c. c_id c = 100)
     (conversationColl (sample_db (map (\<lambda>i. sample_message i (int i)) [0..<20])
                          [sample_conversation 100 7 [0..<20] 0]))
   = Some (sample_conversation 100 7 [0..<20] 0)"
  by (simp add: sample_db_def sample_conversation_def)

theorem chatWithLexi_window_witness:
  "snd (recordUserTurn
          (sample_db (map (\<lambda>i. sample_message i (int i)) [0..<20]) [sample_conversation 100 7 [0..<20] 0])
          50 51 (ascii ''hi'') 100)
     = Inr (map (\<lambda>i. turn_of (sample_message i (int i))) [1..<20]
            @ [\<lparr>t_role = ascii ''user'',
                 t_content = [\<lparr>block_type = ascii ''text'', block_text = ascii ''hi''\<rparr>]\<rparr>])
   \<and> length (rq_messages (completion_request (setSystemPrompt sample_texts (fullName sample_user))
        (map (\<lambda>i. turn_of (sample_message i (int i))) [1..<20]
            @ [\<lparr>t_role = ascii ''user'',
                 t_content = [\<lparr>block_type = ascii ''text'', block_text = ascii ''hi''\<rparr>]\<rparr>]))) = 21
   \<and> snd (recordUserTurn (sample_db [] [sample_conversation 100 7 [] 0]) 10 11 (ascii ''hi'') 100)
     = Inr [\<lparr>t_role = ascii ''user'',
              t_content = [\<lparr>block_type = ascii ''text'', block_text = ascii ''hi''\<rparr>]\<rparr>]
   \<and> rq_messages (completion_request (setSystemPrompt sample_texts (fullName sample_user))
        [\<lparr>t_role = ascii ''user'',
           t_content = [\<lparr>block_type = ascii ''text'', block_text = ascii ''hi''\<rparr>]\<rparr>])
     = [system_turn (setSystemPrompt sample_texts (fullName sample_user)),
        \<lparr>t_role = ascii ''user'',
          t_content = [\<lparr>block_type = ascii ''text'', block_text = ascii ''hi''\<rparr>]\<rparr>]"
proof -
  let ?big = "sample_db (map (\<lambda>i. sample_message i (int i)) [0..<20]) [sample_conversation 100 7 [0..<20] 0]"
  let ?small = "sample_db [] [sample_conversation 100 7 [] 0]"
  let ?u = "\<lparr>t_role = ascii ''user'',
             t_content = [\<lparr>block_type = ascii ''text'', block_text = ascii ''hi''\<rparr>]\<rparr>"
  let ?m = "\<lambda>t. \<lparr>m_id = 1000, m_role = ascii ''user'',
             m_content = [\<lparr>block_type = ascii ''text'', block_text = ascii ''hi''\<rparr>],
             m_conversation = 100, m_created_at = t, m_updated_at = t\<rparr>"
  let ?old = "map (\<lambda>i. sample_message i (int i)) [0..<20]"
  have tu: "turn_of (?m t) = ?u" for t
    by (simp add: turn_of_def)
  have d: "drop (length (?old @ [?m 50]) - 20) (?old @ [?m 50])
      = map (\<lambda>i. sample_message i (int i)) [1..<20] @ [?m 50]"
    by (simp add: drop_map drop_upt)
  have w: "map turn_of (drop (length (?old @ [?m 50]) - 20) (?old @ [?m 50]))
      = map (\<lambda>i. turn_of (sample_message i (int i))) [1..<20] @ [?u]"
    unfolding d by (simp only: map_append map_map comp_def list.map tu)
  have ws: "map turn_of (drop (length [?m 10] - 20) [?m 10]) = [?u]"
    by (simp add: tu)
  note big = chatWithLexi_window [OF big_wf big_find hi_nonempty,
        of 50 51 sample_texts sample_user "\<lambda>rq. LlmError ''timeout''" 12 13,
        unfolded Let_def sample_history w]
  note small = chatWithLexi_window [OF sample_wf sample_find hi_nonempty,
        of 10 11 sample_texts sample_user "\<lambda>rq. LlmError ''timeout''" 12 13,
        unfolded Let_def sample_history_small ws]
  have a: "snd (recordUserTurn ?big 50 51 (ascii ''hi'') 100)
     = Inr (map (\<lambda>i. turn_of (sample_message i (int i))) [1..<20] @ [?u])"
    by (rule big [THEN conjunct2, THEN conjunct1])
  have "rq_messages (completion_request (setSystemPrompt sample_texts (fullName sample_user))
        (map (\<lambda>i. turn_of (sample_message i (int i))) [1..<20] @ [?u]))
      = system_turn (setSystemPrompt sample_texts (fullName sample_user))
        # (map (\<lambda>i. turn_of (sample_message i (int i))) [1..<20] @ [?u])"
    by (rule big [THEN conjunct2, THEN conjunct2, THEN conjunct1])
  then have b: "length (rq_messages (completion_request (setSystemPrompt sample_texts (fullName sample_user))
        (map (\<lambda>i. turn_of (sample_message i (int i))) [1..<20] @ [?u]))) = 21"
    by simp
  have c: "snd (recordUserTurn ?small 10 11 (ascii ''hi'') 100) = Inr [?u]"
    by (rule small [THEN conjunct2, THEN conjunct1])
  have e: "rq_messages (completion_request (setSystemPrompt sample_texts (fullName sample_user)) [?u])
      = [system_turn (setSystemPrompt sample_texts (fullName sample_user)), ?u]"
    by (rule small [THEN conjunct2, THEN conjunct2, THEN conjunct1])
  from a b c e show ?thesis by (intro conjI)
qed

section \<open>The database invariant\<close>

text \<open>
  \<open>wf_db\<close> holds of the empty database and every operation of the services keeps it;
  \<^verbatim>\<open>updateConversation\<close> keeps it when the message id was handed out by the counter,
  as the ids that \<^verbatim>\<open>chatWithLexi\<close> passes are.
\<close>

lemma wf_db_empty: "wf_db empty_database"
  by (simp add: wf_db_def empty_database_def)

lemma wf_db_newConversation: "wf_db db \<Longrightarrow> wf_db (fst (newConversation db now userId))"
  by (fastforce simp: wf_db_def newConversation_def Let_def less_Suc_eq)

lemma wf_db_newMessage: "wf_db db \<Longrightarrow> wf_db (fst (newMessage db now role input cid))"
  by (fastforce simp: wf_db_def newMessage_def Let_def less_Suc_eq split: option.splits)

lemma nextOid_newMessage: "nextOid db \<le> nextOid (fst (newMessage db now role input cid))"
  by (simp add: newMessage_def Let_def split: option.splits)

lemma map_c_id_replace_first: "c_id c' = i \<Longrightarrow> map c_id (replace_first i c' cs) = map c_id cs"
  by (induction cs) auto

lemma set_replace_first: "set (replace_first i c' cs) \<subseteq> insert c' (set cs)"
  by (induction cs) auto

lemma wf_db_updateConversation:
  assumes "wf_db db" and "mid < nextOid db"
  shows "wf_db (fst (updateConversation db now cid mid))"
proof (cases "find (\<lambda>c. c_id c = cid) (conversationColl db)")
  case None
  then show ?thesis using assms(1) by (simp add: updateConversation_None)
next
  case (Some c)
  let ?c' = "c\<lparr>c_messages := addToSet (c_messages c) mid, c_updated_at := now\<rparr>"
  have db': "fst (updateConversation db now cid mid)
      = db\<lparr>conversationColl := replace_first cid ?c' (conversationColl db)\<rparr>"
    using Some by (simp add: updateConversation_def Let_def)
  have cin: "c \<in> set (conversationColl db)" using Some by (rule find_in_set)
  have ids: "map c_id (replace_first cid ?c' (conversationColl db)) = map c_id (conversationColl db)"
    using find_c_id [OF Some] by (simp add: map_c_id_replace_first)
  have c': "c_id ?c' < nextOid db \<and> (\<forall>r\<in>set (c_messages ?c'). r < nextOid db)"
    using assms cin by (auto simp: wf_db_def set_addToSet)
  have "\<forall>x\<in>set (replace_first cid ?c' (conversationColl db)).
          c_id x < nextOid db \<and> (\<forall>r\<in>set (c_messages x). r < nextOid db)"
  proof
    fix x assume "x \<in> set (replace_first cid ?c' (conversationColl db))"
    then have "x = ?c' \<or> x \<in> set (conversationColl db)"
      using set_replace_first [of cid ?c' "conversationColl db"] by auto
    then show "c_id x < nextOid db \<and> (\<forall>r\<in>set (c_messages x). r < nextOid db)"
      using c' assms(1) by (auto simp: wf_db_def)
  qed
  then show ?thesis
    using assms(1) unfolding db' by (simp add: wf_db_def ids)
qed

lemma wf_db_deleteOlderThan: "wf_db db \<Longrightarrow> wf_db (deleteOlderThan db now kidId off days)"
  by (auto simp: wf_db_def deleteOlderThan_def Let_def distinct_map_filter)

lemma newMessage_Inr:
  "newMessage db now role input cid = (db', Inr m) \<Longrightarrow> m_id m = nextOid db \<and> nextOid db' = Suc (nextOid db)"
  by (auto simp: newMessage_def Let_def split: option.splits if_splits)

lemma wf_db_recordUserTurn: "wf_db db \<Longrightarrow> wf_db (fst (recordUserTurn db t1 t2 text cid))"
proof -
  assume wf: "wf_db db"
  obtain db1 r where n: "newMessage db t1 (ascii ''user'') (Some text) cid = (db1, r)"
    by (cases "newMessage db t1 (ascii ''user'') (Some text) cid")
  have wf1: "wf_db db1" using wf_db_newMessage [OF wf, of t1 "ascii ''user''" "Some text" cid] n by simp
  show ?thesis
  proof (cases r)
    case (Inl e)
    then show ?thesis using wf1 by (simp add: recordUserTurn_def n)
  next
    case (Inr m)
    from newMessage_Inr [OF n [unfolded Inr]] have "m_id m < nextOid db1" by simp
    from wf_db_updateConversation [OF wf1 this, of t2 cid]
    show ?thesis
      by (auto simp: recordUserTurn_def n Inr split: prod.splits option.splits)
  qed
qed

lemma wf_db_chatWithLexi:
  assumes wf: "wf_db db"
  shows "wf_db (fst (chatWithLexi texts llm db t1 t2 t3 t4 text cid user))"
proof -
  obtain db2 r where r: "recordUserTurn db t1 t2 text cid = (db2, r)"
    by (cases "recordUserTurn db t1 t2 text cid")
  have wf2: "wf_db db2" using wf_db_recordUserTurn [OF wf, of t1 t2 "text" cid] r by simp
  show ?thesis
  proof (cases r)
    case (Inl e)
    then show ?thesis using wf2 by (simp add: chatWithLexi_def r)
  next
    case (Inr window)
    show ?thesis
    proof (cases "llm (completion_request (setSystemPrompt texts (fullName user)) window)")
      case (LlmError msg)
      then show ?thesis using wf2 by (simp add: chatWithLexi_def r Inr)
    next
      case (LlmReply role content)
      obtain db3 r3 where n: "newMessage db2 t3 role content cid = (db3, r3)"
        by (cases "newMessage db2 t3 role content cid")
      have wf3: "wf_db db3" using wf_db_newMessage [OF wf2, of t3 role content cid] n by simp
      show ?thesis
      proof (cases r3)
        case (Inl e)
        then show ?thesis using wf3 by (simp add: chatWithLexi_def r Inr LlmReply n)
      next
        case (Inr m) note m = this
        from newMessage_Inr [OF n [unfolded m]] have "m_id m < nextOid db3" by simp
        from wf_db_updateConversation [OF wf3 this, of t4 cid]
        show ?thesis
          by (auto simp: chatWithLexi_def r \<open>r = Inr window\<close> LlmReply n m split: prod.splits)
      qed
    qed
  qed
qed

section \<open>The chat controller\<close>

lemma typeof_number: "string_to_number (ascii ''number'') = NaN"
  by (simp add: string_to_number_def js_trim_def is_js_space_def ascii_def is_digit_def)

text \<open>
  C10. The length guard of the voice endpoint is false for every transcription, of any
  length: it compares the string \<^verbatim>\<open>'number'\<close> with 1000. So the handler never takes
  the branch of the error "User question is too long": on a file and a non-empty
  transcription it goes on to the turn, whatever the length.
\<close>

theorem voice_too_long_never:
  "\<not> voice_too_long t
   \<and> chat_voice e db True (Inr (JStr (c # t))) (Some cid)
     = (case run_turn e db (c # t) cid of
          (db', Inl err) \<Rightarrow> (db', Inl err)
        | (db', Inr textChatResponse) \<Rightarrow>
            (case r_content textChatResponse of
               None \<Rightarrow> (db', Inl (HttpError 400 ''Invalid AI response.''
                                    (Some ''AI returned an invalid response.'')))
             | Some answer \<Rightarrow>
                 if answer = []
                 then (db', Inl (HttpError 400 ''Invalid AI response.''
                                  (Some ''AI returned an invalid response.'')))
                 else (db', Inr (c # t, answer))))"
proof -
  have g: "\<not> voice_too_long s" for s
    by (simp add: voice_too_long_def js_length_def js_gt_str_num_def typeof_number)
  show ?thesis
    by (simp add: g chat_voice_def)
qed

theorem voice_too_long_never_witness:
  "\<not> voice_too_long (replicate 1001 0x61)
   \<and> chat_voice (sample_env (\<lambda>rq. LlmReply (ascii ''assistant'') (Some (ascii ''ok''))))
       (sample_db [] [sample_conversation 100 7 [] 0]) True (Inr (JStr (replicate 1001 0x61))) (Some 100)
     = (fst (run_turn (sample_env (\<lambda>rq. LlmReply (ascii ''assistant'') (Some (ascii ''ok''))))
               (sample_db [] [sample_conversation 100 7 [] 0]) (replicate 1001 0x61) 100),
        Inr (replicate 1001 0x61, ascii ''ok''))"
proof -
  let ?e = "sample_env (\<lambda>rq. LlmReply (ascii ''assistant'') (Some (ascii ''ok'')))"
  let ?db = "sample_db [] [sample_conversation 100 7 [] 0]"
  have r: "replicate 1001 (0x61 :: 16 word) = 0x61 # replicate 1000 0x61"
    by (simp add: replicate_Suc [symmetric] del: replicate_Suc)
  have ne: "replicate 1001 (0x61 :: 16 word) \<noteq> []" by simp
  have ok: "ascii ''assistant'' \<in> set role_enum" "ascii ''ok'' \<noteq> []"
    by (simp_all add: role_enum_def ascii_def)
  have t: "snd (run_turn ?e ?db (replicate 1001 0x61) 100)
     = Inr \<lparr>r_role = ascii ''assistant'', r_content = Some (ascii ''ok''), r_conversationId = 100\<rparr>"
    by (simp add: run_turn_def sample_env_def getChildInfoById_def chatWithLexi_def recordUserTurn_def
      newMessage_ok [OF user_role_enum ne] newMessage_ok [OF ok] updateConversation_def
      sample_db_def sample_conversation_def Let_def addToSet_def populate_def populate_messages_def
      currentConversation_def js_slice_def split: prod.splits)
  obtain db' where rt: "run_turn ?e ?db (replicate 1001 0x61) 100
     = (db', Inr \<lparr>r_role = ascii ''assistant'', r_content = Some (ascii ''ok''), r_conversationId = 100\<rparr>)"
    using t by (cases "run_turn ?e ?db (replicate 1001 0x61) 100") simp
  have g: "\<not> voice_too_long (replicate 1001 0x61)"
    using voice_too_long_never [of "replicate 1001 0x61" ?e ?db "0x61" 100] by (rule conjunct1)
  have "chat_voice ?e ?db True (Inr (JStr (replicate 1001 0x61))) (Some 100)
     = (db', Inr (replicate 1001 0x61, ascii ''ok''))"
    using voice_too_long_never [of "replicate 1000 0x61" ?e ?db "0x61" 100]
    unfolding r [symmetric]
    by (simp add: rt ok)
  then have v: "chat_voice ?e ?db True (Inr (JStr (replicate 1001 0x61))) (Some 100)
     = (fst (run_turn ?e ?db (replicate 1001 0x61) 100), Inr (replicate 1001 0x61, ascii ''ok''))"
    by (simp add: rt)
  from g v show ?thesis by (rule conjI)
qed



end
